theory Spec2Isabelle
  imports Complex_Main
begin

section \<open>Quiz room server: data model\<close>

text \<open>
  The model follows the last, complete revision of \<^verbatim>\<open>src/server.js\<close> (the Socket.IO
  handlers from \<^verbatim>\<open>createRoom\<close> to \<^verbatim>\<open>disconnect\<close>, the timer functions
  \<^verbatim>\<open>startQuestionTimer\<close> and \<^verbatim>\<open>clearQuestionTimer\<close>).

  Conventions of the embedding:
  \<^item> JavaScript numbers that the handlers receive or store are modelled as \<open>int\<close>; the
    only division of the program, the time bonus, is computed in exact rationals.
  \<^item> A payload field is an \<open>option\<close>: \<open>None\<close> is a missing field (or one of the wrong
    JavaScript type where the handler tests \<^verbatim>\<open>typeof\<close>).
  \<^item> The three module-level maps \<^verbatim>\<open>rooms\<close>, \<^verbatim>\<open>socketRoomMap\<close> and
    \<^verbatim>\<open>questionTimers\<close> are the fields of the state; every \<^verbatim>\<open>emit\<close> is appended
    to the log \<open>emitted\<close>.
  \<^item> A room object is stored under exactly one key, so the in-place mutations of the
    handlers are written back under the key the room was read from.
  \<^item> Of a room, the fields \<^verbatim>\<open>questionTimer\<close> (always null) and \<^verbatim>\<open>createdAt\<close>
    (never read) are left out; the field \<open>ref\<close> is the identity of the JavaScript object,
    which the continuation of \<^verbatim>\<open>generateQuestions\<close> holds across its \<^verbatim>\<open>await\<close>.
    \<^verbatim>\<open>socket.join\<close> and \<^verbatim>\<open>socket.leave\<close> act on the transport alone; what the
    handlers read back of it is an input (\<open>socketRooms1\<close>).
  \<^item> \<open>None\<close> in the fields \<open>selectedAnswer\<close> and \<open>answerTime\<close> of a player is
    JavaScript's null (or an answer the client left out).
\<close>

datatype status = Waiting | Quiz | Finished

record player =
  id_player :: string
  clientId :: string
  name :: string
  score :: int
  answered :: bool
  selectedAnswer :: "int option"
  answerTime :: "int option"
  roundPoints :: int
  ready :: bool

record question =
  id_question :: string
  question :: string
  options :: "string list"
  correctAnswer :: int
  difficulty_question :: string

record room =
  id_room :: string
  code :: string
  adminId :: string
  players :: "player list"
  status :: status
  currentQuestion :: int
  totalQuestions :: int
  questions :: "question list"
  topic :: string
  difficulty :: string
  questionCount :: int
  questionTime :: int
  questionsReady :: bool
  rematch :: bool
  ref :: nat

text \<open>Where an event goes: \<^verbatim>\<open>socket.emit\<close> or \<^verbatim>\<open>io.to(code).emit\<close>.\<close>

datatype target = ToSocket string | ToRoom string

datatype event =
    Error string
  | RoomCreated room string string
  | RoomJoined room string
  | RoomUpdated room
  | GeneratingQuestions string
  | QuestionsGenerated room
  | QuizStarted room
  | QuestionUpdated room
  | PlayerSubmitted string string
  | AllAnswered room
  | TimeUp room
  | QuizFinished room
  | GoToLobby room

text \<open>
  A timer handle with its delay in milliseconds. A fired one-shot timeout stays in
  \<^verbatim>\<open>questionTimers\<close> until it is cleared, but cannot fire again: \<open>Expired\<close>.
\<close>

datatype timer = Pending int | Expired int

text \<open>
  A call of the generator that has not returned yet, with what the suspended handler
  holds: the room object, the key it was found under, the caller's \<^verbatim>\<open>socket.id\<close> and
  the count it asked for.
\<close>

record generation =
  g_room :: nat
  g_key :: string
  g_socket :: string
  g_count :: int

text \<open>
  Beside the three maps and the log: the suspended \<^verbatim>\<open>generateQuestions\<close> handlers, the
  room objects that have left the store (a suspended handler may still hold one), and the
  next fresh object identity.
\<close>

record state =
  rooms :: "string \<rightharpoonup> room"
  socketRoomMap :: "string \<rightharpoonup> string"
  questionTimers :: "string \<rightharpoonup> timer"
  emitted :: "(target \<times> event) list"
  pendingGenerations :: "generation list"
  orphans :: "nat \<rightharpoonup> room"
  nextRef :: nat

text \<open>
  The connection a handler runs for: \<^verbatim>\<open>socket.id\<close>, and the value of
  \<^verbatim>\<open>Array.from(socket.rooms)[1]\<close> as the transport reports it (\<open>None\<close> when undefined).
\<close>

record socket =
  sid :: string
  socketRooms1 :: "string option"

definition init :: state where
  "init = \<lparr>rooms = Map.empty, socketRoomMap = Map.empty, questionTimers = Map.empty, emitted = [],
            pendingGenerations = [], orphans = Map.empty, nextRef = 0\<rparr>"

section \<open>JavaScript helpers\<close>

text \<open>\<^verbatim>\<open>x || d\<close> on a string: the default replaces undefined and the empty string.\<close>

definition orElse :: "string option \<Rightarrow> string \<Rightarrow> string" where
  "orElse x d = (case x of None \<Rightarrow> d | Some v \<Rightarrow> if v = [] then d else v)"

definition truthy :: "string option \<Rightarrow> bool" where
  "truthy x = (case x of None \<Rightarrow> False | Some v \<Rightarrow> v \<noteq> [])"

text \<open>\<^verbatim>\<open>Number(n || d)\<close> on a number: the default replaces undefined and 0.\<close>

definition numOr :: "int option \<Rightarrow> int \<Rightarrow> int" where
  "numOr x d = (case x of None \<Rightarrow> d | Some n \<Rightarrow> if n = 0 then d else n)"

text \<open>\<^verbatim>\<open>toUpperCase\<close> on ASCII strings.\<close>

definition upperChar :: "char \<Rightarrow> char" where
  "upperChar c = (let n = (of_char c :: nat) in if 97 \<le> n \<and> n \<le> 122 then char_of (n - 32) else c)"

definition toUpperCase :: "string \<Rightarrow> string" where
  "toUpperCase s = map upperChar s"

text \<open>\<^verbatim>\<open>findIndex\<close>: the first position that satisfies the test, \<open>None\<close> for -1.\<close>

fun findIndex :: "('a \<Rightarrow> bool) \<Rightarrow> 'a list \<Rightarrow> nat option" where
  "findIndex P [] = None"
| "findIndex P (x # xs) = (if P x then Some 0 else map_option Suc (findIndex P xs))"

text \<open>\<^verbatim>\<open>xs.splice(i, 1)\<close> for an index in range.\<close>

definition splice1 :: "nat \<Rightarrow> 'a list \<Rightarrow> 'a list" where
  "splice1 i xs = take i xs @ drop (Suc i) xs"

definition emit :: "target \<Rightarrow> event \<Rightarrow> state \<Rightarrow> state" where
  "emit t e s = s\<lparr>emitted := emitted s @ [(t, e)]\<rparr>"

definition canJoin :: "room \<Rightarrow> bool" where
  "canJoin r = (status r = Waiting \<or> (status r = Finished \<and> rematch r))"

text \<open>
  The lookup that opens the handlers from \<^verbatim>\<open>updateSettings\<close> to \<^verbatim>\<open>playAgain\<close>:
  \<^verbatim>\<open>roomCode = socketRoomMap.get(socket.id) || Array.from(socket.rooms)[1]\<close>, then
  \<^verbatim>\<open>rooms.get((roomCode || '').toUpperCase())\<close>.
\<close>

definition roomKey :: "socket \<Rightarrow> state \<Rightarrow> string" where
  "roomKey sock s =
     toUpperCase (orElse (if truthy (socketRoomMap s (sid sock)) then socketRoomMap s (sid sock)
                          else socketRooms1 sock) [])"

definition lookupRoom :: "socket \<Rightarrow> state \<Rightarrow> room option" where
  "lookupRoom sock s = rooms s (roomKey sock s)"

definition newPlayer :: "string \<Rightarrow> string \<Rightarrow> string option \<Rightarrow> player" where
  "newPlayer playerId cid playerName =
     \<lparr>id_player = playerId, clientId = cid, name = orElse playerName ''Player'', score = 0,
      answered = False, selectedAnswer = None, answerTime = None, roundPoints = 0, ready = False\<rparr>"

section \<open>Timer management\<close>

definition clearQuestionTimer :: "string \<Rightarrow> state \<Rightarrow> state" where
  "clearQuestionTimer roomCode s =
     (case questionTimers s roomCode of
        None \<Rightarrow> s
      | Some t \<Rightarrow> s\<lparr>questionTimers := (questionTimers s)(roomCode := None)\<rparr>)"

definition startQuestionTimer :: "string \<Rightarrow> room \<Rightarrow> state \<Rightarrow> state" where
  "startQuestionTimer roomCode r s =
     (let s1 = clearQuestionTimer roomCode s
      in s1\<lparr>questionTimers :=
               (questionTimers s1)(roomCode \<mapsto> Pending (numOr (Some (questionTime r)) 30 * 1000))\<rparr>)"

definition autoSubmit :: "player \<Rightarrow> player" where
  "autoSubmit p =
     (if \<not> answered p then p\<lparr>answered := True, selectedAnswer := Some (- 1), roundPoints := 0\<rparr>
      else p)"

text \<open>
  The timeout callback of \<^verbatim>\<open>startQuestionTimer\<close> for the timer stored under
  \<open>roomCode\<close>. A room is deleted together with its timer (the store invariant), so the room the
  callback closes over is the one stored under \<open>roomCode\<close>.
\<close>

definition timerFires :: "string \<Rightarrow> state \<Rightarrow> state" where
  "timerFires roomCode s =
     (case questionTimers s roomCode of
        Some (Pending d) \<Rightarrow>
          (case rooms s roomCode of
             None \<Rightarrow> s\<lparr>questionTimers := (questionTimers s)(roomCode \<mapsto> Expired d)\<rparr>
           | Some r \<Rightarrow>
               (let r' = r\<lparr>players := map autoSubmit (players r)\<rparr>
                in s\<lparr>rooms := (rooms s)(roomCode \<mapsto> r'),
                     questionTimers := (questionTimers s)(roomCode \<mapsto> Expired d),
                     emitted := emitted s @ [(ToRoom roomCode, TimeUp r), (ToRoom roomCode, AllAnswered r')]\<rparr>))
      | _ \<Rightarrow> s)"

section \<open>Handlers\<close>

subsection \<open>createRoom\<close>

text \<open>
  The \<^verbatim>\<open>do ... while (rooms.has(roomCode))\<close> loop over random codes: \<open>draws\<close> are the
  successive values of \<^verbatim>\<open>Math.random().toString(36).substring(2, 8)\<close>; the loop has not
  ended (\<open>None\<close>) while every draw so far is taken.
\<close>

fun freshCode :: "string list \<Rightarrow> (string \<rightharpoonup> room) \<Rightarrow> string option" where
  "freshCode [] rs = None"
| "freshCode (d # ds) rs =
     (if rs (toUpperCase d) = None then Some (toUpperCase d) else freshCode ds rs)"

text \<open>\<open>now\<close> is the decimal text of \<^verbatim>\<open>Date.now()\<close>.\<close>

definition createRoom ::
  "socket \<Rightarrow> string option \<Rightarrow> string option \<Rightarrow> string option \<Rightarrow> int option \<Rightarrow> string option
   \<Rightarrow> string list \<Rightarrow> string \<Rightarrow> state \<Rightarrow> state option" where
  "createRoom sock playerName topic' difficulty' questionCount' clientId' draws now s =
     (case freshCode draws (rooms s) of
        None \<Rightarrow> None
      | Some roomCode \<Rightarrow>
          (let playerId = sid sock;
               stableClientId = orElse clientId' (sid sock @ ''-'' @ now);
               p = newPlayer playerId stableClientId playerName;
               r = \<lparr>id_room = roomCode, code = roomCode, adminId = playerId, players = [p],
                    status = Waiting, currentQuestion = 0,
                    totalQuestions = numOr questionCount' 5, questions = [],
                    topic = orElse topic' ''General Knowledge'',
                    difficulty = orElse difficulty' ''medium'',
                    questionCount = numOr questionCount' 5, questionTime = 30,
                    questionsReady = False, rematch = False, ref = nextRef s\<rparr>
           in Some (s\<lparr>rooms := (rooms s)(roomCode \<mapsto> r),
                      socketRoomMap := (socketRoomMap s)(sid sock \<mapsto> roomCode),
                      emitted := emitted s @ [(ToSocket (sid sock), RoomCreated r playerId stableClientId)],
                      nextRef := Suc (nextRef s)\<rparr>)))"

subsection \<open>joinRoom and rejoinRoom\<close>

text \<open>\<^verbatim>\<open>existing.id = socket.id\<close> on the player found at position \<open>i\<close>.\<close>

definition rebind :: "nat \<Rightarrow> string \<Rightarrow> room \<Rightarrow> room" where
  "rebind i newId r = r\<lparr>players := (players r)[i := (players r ! i)\<lparr>id_player := newId\<rparr>]\<rparr>"

definition joined :: "socket \<Rightarrow> string \<Rightarrow> room \<Rightarrow> string \<Rightarrow> state \<Rightarrow> state" where
  "joined sock rc r' playerId s =
     s\<lparr>rooms := (rooms s)(rc \<mapsto> r'),
       socketRoomMap := (socketRoomMap s)(sid sock \<mapsto> rc),
       emitted := emitted s @ [(ToRoom rc, RoomUpdated r'), (ToSocket (sid sock), RoomJoined r' playerId)]\<rparr>"

definition joinRoom ::
  "socket \<Rightarrow> string option \<Rightarrow> string option \<Rightarrow> string option \<Rightarrow> string \<Rightarrow> state \<Rightarrow> state" where
  "joinRoom sock roomCode playerName clientId' now s =
     (let rc = toUpperCase (orElse roomCode [])
      in case rooms s rc of
           None \<Rightarrow> emit (ToSocket (sid sock)) (Error ''Room not found'') s
         | Some r \<Rightarrow>
             if \<not> canJoin r then
               (case (if truthy clientId'
                      then findIndex (\<lambda>p. clientId p = the clientId') (players r) else None) of
                  Some i \<Rightarrow> joined sock rc (rebind i (sid sock) r) (sid sock) s
                | None \<Rightarrow> emit (ToSocket (sid sock)) (Error ''Game has already started'') s)
             else if length (players r) \<ge> 10 then
               emit (ToSocket (sid sock)) (Error ''Room is full'') s
             else
               (let p = newPlayer (sid sock) (orElse clientId' (sid sock @ ''-'' @ now)) playerName
                in joined sock rc (r\<lparr>players := players r @ [p]\<rparr>) (sid sock) s))"

definition rejoinRoom ::
  "socket \<Rightarrow> string option \<Rightarrow> string option \<Rightarrow> string option \<Rightarrow> state \<Rightarrow> state" where
  "rejoinRoom sock roomCode clientId' playerName s =
     (let rc = toUpperCase (orElse roomCode [])
      in if rc = [] \<or> \<not> truthy clientId' then
           emit (ToSocket (sid sock)) (Error ''Invalid rejoin payload'') s
         else case rooms s rc of
           None \<Rightarrow> emit (ToSocket (sid sock)) (Error ''Room not found'') s
         | Some r \<Rightarrow>
             (case findIndex (\<lambda>p. clientId p = the clientId') (players r) of
                None \<Rightarrow>
                  if \<not> canJoin r then
                    emit (ToSocket (sid sock)) (Error ''Game already in progress'') s
                  else
                    (let p = newPlayer (sid sock) (the clientId') playerName
                     in joined sock rc (r\<lparr>players := players r @ [p]\<rparr>) (sid sock) s)
              | Some i \<Rightarrow> joined sock rc (rebind i (sid sock) r) (sid sock) s))"

subsection \<open>updateSettings and generateQuestions\<close>

definition inLobby :: "room \<Rightarrow> bool" where
  "inLobby r = (status r = Waiting \<or> (status r = Finished \<and> rematch r))"

definition allowed :: "int list" where
  "allowed = [10, 15, 20, 25, 30]"

text \<open>
  The four settings are \<open>Some\<close> when the payload field has the JavaScript type the handler
  tests for (\<^verbatim>\<open>typeof topic === 'string'\<close>, \<^verbatim>\<open>typeof questionCount === 'number'\<close>).
\<close>

definition updateSettings ::
  "socket \<Rightarrow> string option \<Rightarrow> string option \<Rightarrow> int option \<Rightarrow> int option \<Rightarrow> state \<Rightarrow> state" where
  "updateSettings sock topic' difficulty' questionCount' questionTime' s =
     (case lookupRoom sock s of
        None \<Rightarrow> s
      | Some r \<Rightarrow>
          if adminId r \<noteq> sid sock then s
          else if \<not> inLobby r then s
          else
            (let r1 = (case topic' of Some t \<Rightarrow> r\<lparr>topic := t\<rparr> | None \<Rightarrow> r);
                 r2 = (case difficulty' of Some d \<Rightarrow> r1\<lparr>difficulty := d\<rparr> | None \<Rightarrow> r1);
                 r3 = (case questionCount' of
                         Some n \<Rightarrow> r2\<lparr>questionCount := max 1 (min 20 n),
                                       totalQuestions := max 1 (min 20 n)\<rparr>
                       | None \<Rightarrow> r2);
                 r4 = (case questionTime' of
                         Some n \<Rightarrow> r3\<lparr>questionTime := (if n \<in> set allowed then n else 30)\<rparr>
                       | None \<Rightarrow> r3);
                 r5 = r4\<lparr>questions := [], questionsReady := False\<rparr>
             in emit (ToRoom (code r5)) (RoomUpdated r5)
                  (s\<lparr>rooms := (rooms s)(roomKey sock s \<mapsto> r5)\<rparr>)))"

text \<open>
  The handler of \<^verbatim>\<open>generateQuestions\<close> up to its \<^verbatim>\<open>await\<close>: the guards, the broadcast
  of \<^verbatim>\<open>generatingQuestions\<close>, and the call of the generator with \<^verbatim>\<open>room.questionCount\<close>.
  Other handlers run before the call returns.
\<close>

definition generateQuestions :: "socket \<Rightarrow> state \<Rightarrow> state" where
  "generateQuestions sock s =
     (case lookupRoom sock s of
        None \<Rightarrow> s
      | Some r \<Rightarrow>
          if adminId r \<noteq> sid sock then s
          else if \<not> inLobby r then s
          else
            (emit (ToRoom (code r)) (GeneratingQuestions (code r)) s)
              \<lparr>pendingGenerations := pendingGenerations s @
                 [\<lparr>g_room = ref r, g_key = roomKey sock s, g_socket = sid sock,
                   g_count = questionCount r\<rparr>]\<rparr>)"

text \<open>
  The room object a suspended handler holds: the one stored under its key while that is
  still the same object, the orphan otherwise. Writing to it changes the store only in
  the first case.
\<close>

definition isLive :: "generation \<Rightarrow> state \<Rightarrow> bool" where
  "isLive g s = (case rooms s (g_key g) of None \<Rightarrow> False | Some r \<Rightarrow> ref r = g_room g)"

definition captured :: "generation \<Rightarrow> state \<Rightarrow> room option" where
  "captured g s = (if isLive g s then rooms s (g_key g) else orphans s (g_room g))"

definition writeCaptured :: "generation \<Rightarrow> room \<Rightarrow> state \<Rightarrow> state" where
  "writeCaptured g r' s =
     (if isLive g s then s\<lparr>rooms := (rooms s)(g_key g \<mapsto> r')\<rparr>
      else s\<lparr>orphans := (orphans s)(g_room g \<mapsto> r')\<rparr>)"

text \<open>
  The rest of the handler, when the generator returns: \<open>result\<close> is \<open>Inr\<close> the question
  list, or \<open>Inl\<close> the message of the error it throws. Nothing is tested again: the
  questions are assigned whatever the room's status and settings have become.
\<close>

definition generateQuestions_resume :: "generation \<Rightarrow> string + question list \<Rightarrow> state \<Rightarrow> state" where
  "generateQuestions_resume g result s =
     (case result of
        Inl msg \<Rightarrow> emit (ToSocket (g_socket g)) (Error ''Failed to generate questions'') s
      | Inr qs \<Rightarrow>
          (case captured g s of
             None \<Rightarrow> s
           | Some r \<Rightarrow>
               (let r' = r\<lparr>questions := qs, questionsReady := True\<rparr>
                in emit (ToRoom (code r')) (RoomUpdated r')
                     (emit (ToRoom (code r')) (QuestionsGenerated r')
                        (writeCaptured g r' s)))))"

subsection \<open>startQuiz\<close>

definition resetMatch :: "player \<Rightarrow> player" where
  "resetMatch p = p\<lparr>score := 0, answered := False, selectedAnswer := None, answerTime := None,
                    roundPoints := 0, ready := False\<rparr>"

definition startQuiz :: "socket \<Rightarrow> state \<Rightarrow> state" where
  "startQuiz sock s =
     (case lookupRoom sock s of
        None \<Rightarrow> emit (ToSocket (sid sock)) (Error ''Not authorized'') s
      | Some r \<Rightarrow>
          if adminId r \<noteq> sid sock then emit (ToSocket (sid sock)) (Error ''Not authorized'') s
          else if length (questions r) = 0 \<or> \<not> questionsReady r then
            emit (ToSocket (sid sock)) (Error ''Generate questions first'') s
          else if status r = Finished \<and> rematch r \<and> \<not> list_all (\<lambda>p. ready p) (players r) then
            emit (ToSocket (sid sock)) (Error ''All players must press Play Again to be ready'') s
          else
            (let r' = r\<lparr>players := map resetMatch (players r), rematch := False,
                        status := Quiz, currentQuestion := 0\<rparr>
             in startQuestionTimer (code r') r'
                  (emit (ToRoom (code r')) (QuizStarted r')
                     (s\<lparr>rooms := (rooms s)(roomKey sock s \<mapsto> r')\<rparr>))))"

subsection \<open>selectAnswer\<close>

text \<open>
  \<^verbatim>\<open>Math.floor((Number(timeRemaining || 0) / maxTime) * 10)\<close>, in exact arithmetic.
\<close>

definition timeBonus :: "int \<Rightarrow> int \<Rightarrow> int" where
  "timeBonus maxTime timeRemaining = \<lfloor>(of_int timeRemaining / of_int maxTime :: rat) * 10\<rfloor>"

definition basePoints :: int where
  "basePoints = 10"

definition totalPoints :: "int \<Rightarrow> int \<Rightarrow> int" where
  "totalPoints maxTime timeRemaining = basePoints + timeBonus maxTime timeRemaining"

text \<open>
  A handler either returns, or throws after the mutations it has made so far:
  \<^verbatim>\<open>room.questions[room.currentQuestion].correctAnswer\<close> is a TypeError when the index is
  outside the question list.
\<close>

datatype 'a outcome = Returns 'a | Throws 'a

fun after :: "'a outcome \<Rightarrow> 'a" where
  "after (Returns s) = s"
| "after (Throws s) = s"

definition selectAnswer :: "socket \<Rightarrow> int option \<Rightarrow> int option \<Rightarrow> state \<Rightarrow> state outcome" where
  "selectAnswer sock answer timeRemaining s =
     (case lookupRoom sock s of
        None \<Rightarrow> Returns s
      | Some r \<Rightarrow>
          if status r \<noteq> Quiz then Returns s
          else
            (case findIndex (\<lambda>p. id_player p = sid sock) (players r) of
               None \<Rightarrow> Returns s
             | Some i \<Rightarrow>
                 if answered (players r ! i) then Returns s
                 else
                   (let maxTime = numOr (Some (questionTime r)) 30;
                        tr = numOr timeRemaining 0;
                        p1 = (players r ! i)\<lparr>selectedAnswer := answer,
                                               answerTime := Some (maxTime - tr),
                                               answered := True\<rparr>
                    in if \<not> (0 \<le> currentQuestion r \<and> currentQuestion r < int (length (questions r))) then
                         Throws (s\<lparr>rooms := (rooms s)(roomKey sock s \<mapsto> r\<lparr>players := (players r)[i := p1]\<rparr>)\<rparr>)
                       else
                         (let isCorrect =
                                (answer = Some (correctAnswer (questions r ! nat (currentQuestion r))));
                              p2 = p1\<lparr>roundPoints := (if isCorrect then totalPoints maxTime tr else 0),
                                      score := (if isCorrect then score p1 + totalPoints maxTime tr
                                                else score p1)\<rparr>;
                              r' = r\<lparr>players := (players r)[i := p2]\<rparr>;
                              s1 = emit (ToRoom (code r')) (PlayerSubmitted (id_player p2) (name p2))
                                     (s\<lparr>rooms := (rooms s)(roomKey sock s \<mapsto> r')\<rparr>);
                              s2 = (if list_all (\<lambda>p. answered p) (players r')
                                    then clearQuestionTimer (code r')
                                           (emit (ToRoom (code r')) (AllAnswered r') s1)
                                    else s1)
                          in Returns (emit (ToRoom (code r')) (RoomUpdated r') s2)))))"

subsection \<open>nextQuestion and playAgain\<close>

definition resetRound :: "player \<Rightarrow> player" where
  "resetRound p = p\<lparr>answered := False, selectedAnswer := None, answerTime := None, roundPoints := 0\<rparr>"

definition nextQuestion :: "socket \<Rightarrow> state \<Rightarrow> state" where
  "nextQuestion sock s =
     (case lookupRoom sock s of
        None \<Rightarrow> s
      | Some r \<Rightarrow>
          if adminId r \<noteq> sid sock \<or> status r \<noteq> Quiz then s
          else
            (let r1 = r\<lparr>players := map resetRound (players r),
                        currentQuestion := currentQuestion r + 1\<rparr>
             in if currentQuestion r1 \<ge> int (length (questions r1)) then
                  (let r2 = r1\<lparr>status := Finished\<rparr>
                   in emit (ToRoom (code r2)) (QuizFinished r2)
                        (s\<lparr>rooms := (rooms s)(roomKey sock s \<mapsto> r2)\<rparr>))
                else
                  startQuestionTimer (code r1) r1
                    (emit (ToRoom (code r1)) (QuestionUpdated r1)
                       (s\<lparr>rooms := (rooms s)(roomKey sock s \<mapsto> r1)\<rparr>))))"

definition playAgain :: "socket \<Rightarrow> state \<Rightarrow> state" where
  "playAgain sock s =
     (case lookupRoom sock s of
        None \<Rightarrow> s
      | Some r \<Rightarrow>
          (case findIndex (\<lambda>p. id_player p = sid sock) (players r) of
             None \<Rightarrow> s
           | Some i \<Rightarrow>
               (let r' = r\<lparr>rematch := True,
                           players := (players r)[i := (players r ! i)\<lparr>ready := True\<rparr>],
                           questionsReady := False\<rparr>
                in emit (ToSocket (sid sock)) (GoToLobby r')
                     (emit (ToRoom (code r')) (RoomUpdated r')
                        (s\<lparr>rooms := (rooms s)(roomKey sock s \<mapsto> r')\<rparr>)))))"

subsection \<open>leaveRoom and disconnect\<close>

text \<open>
  What both handlers do with the room once the caller's player is found at \<open>idx\<close>;
  \<open>wasAdmin\<close> is \<^verbatim>\<open>leavingWasAdmin\<close> in leaveRoom and the test
  \<^verbatim>\<open>room.adminId === socket.id\<close> in disconnect.
\<close>

definition removePlayer :: "string \<Rightarrow> room \<Rightarrow> nat \<Rightarrow> bool \<Rightarrow> state \<Rightarrow> state" where
  "removePlayer roomCode r idx wasAdmin s =
     (let r1 = r\<lparr>players := splice1 idx (players r)\<rparr>
      in if length (players r1) = 0 then
           clearQuestionTimer roomCode
             (s\<lparr>rooms := (rooms s)(roomCode := None), orphans := (orphans s)(ref r \<mapsto> r1)\<rparr>)
         else
           (let r2 = (if wasAdmin then r1\<lparr>adminId := id_player (players r1 ! 0)\<rparr> else r1)
            in emit (ToRoom roomCode) (RoomUpdated r2) (s\<lparr>rooms := (rooms s)(roomCode \<mapsto> r2)\<rparr>)))"

definition leaveRoom :: "socket \<Rightarrow> state \<Rightarrow> state" where
  "leaveRoom sock s =
     (if \<not> truthy (socketRoomMap s (sid sock)) then s
      else
        (let roomCode = the (socketRoomMap s (sid sock));
             s1 = s\<lparr>socketRoomMap := (socketRoomMap s)(sid sock := None)\<rparr>
         in case rooms s roomCode of
              None \<Rightarrow> s1
            | Some r \<Rightarrow>
                (case findIndex (\<lambda>p. id_player p = sid sock) (players r) of
                   None \<Rightarrow> s1
                 | Some idx \<Rightarrow>
                     removePlayer roomCode r idx (id_player (players r ! idx) = adminId r) s1)))"

definition disconnect :: "socket \<Rightarrow> state \<Rightarrow> state" where
  "disconnect sock s =
     (if \<not> truthy (socketRoomMap s (sid sock)) then s
      else
        (let roomCode = the (socketRoomMap s (sid sock));
             s1 = s\<lparr>socketRoomMap := (socketRoomMap s)(sid sock := None)\<rparr>
         in case rooms s roomCode of
              None \<Rightarrow> s1
            | Some r \<Rightarrow>
                (case findIndex (\<lambda>p. id_player p = sid sock) (players r) of
                   None \<Rightarrow> s1
                 | Some idx \<Rightarrow> removePlayer roomCode r idx (adminId r = sid sock) s1)))"

section \<open>The server as a transition system\<close>

text \<open>
  One constructor per inbound event, with the connection it arrives on and its payload;
  \<open>TimerFires\<close> is the expiry of the timeout stored under a room code, and
  \<open>GenerationResumes n result\<close> the return of the generator to the \<open>n\<close>-th suspended
  \<^verbatim>\<open>generateQuestions\<close> handler. Events are handled one at a time, in any order.
\<close>

datatype action =
    CreateRoom socket "string option" "string option" "string option" "int option" "string option"
      "string list" string
  | JoinRoom socket "string option" "string option" "string option" string
  | RejoinRoom socket "string option" "string option" "string option"
  | UpdateSettings socket "string option" "string option" "int option" "int option"
  | GenerateQuestions socket
  | GenerationResumes nat "string + question list"
  | StartQuiz socket
  | SelectAnswer socket "int option" "int option"
  | NextQuestion socket
  | PlayAgain socket
  | LeaveRoom socket
  | Disconnect socket
  | TimerFires string

text \<open>
  The state after an event. A \<^verbatim>\<open>createRoom\<close> whose code loop has not ended has changed
  nothing; a \<^verbatim>\<open>selectAnswer\<close> that throws leaves the mutations made before the throw.
\<close>

fun perform :: "action \<Rightarrow> state \<Rightarrow> state" where
  "perform (CreateRoom sock playerName topic' difficulty' questionCount' clientId' draws now) s =
     (case createRoom sock playerName topic' difficulty' questionCount' clientId' draws now s of
        None \<Rightarrow> s | Some s' \<Rightarrow> s')"
| "perform (JoinRoom sock roomCode playerName clientId' now) s =
     joinRoom sock roomCode playerName clientId' now s"
| "perform (RejoinRoom sock roomCode clientId' playerName) s =
     rejoinRoom sock roomCode clientId' playerName s"
| "perform (UpdateSettings sock topic' difficulty' questionCount' questionTime') s =
     updateSettings sock topic' difficulty' questionCount' questionTime' s"
| "perform (GenerateQuestions sock) s = generateQuestions sock s"
| "perform (GenerationResumes n result) s =
     (if n < length (pendingGenerations s)
      then generateQuestions_resume (pendingGenerations s ! n) result
             (s\<lparr>pendingGenerations := splice1 n (pendingGenerations s)\<rparr>)
      else s)"
| "perform (StartQuiz sock) s = startQuiz sock s"
| "perform (SelectAnswer sock answer timeRemaining) s = after (selectAnswer sock answer timeRemaining s)"
| "perform (NextQuestion sock) s = nextQuestion sock s"
| "perform (PlayAgain sock) s = playAgain sock s"
| "perform (LeaveRoom sock) s = leaveRoom sock s"
| "perform (Disconnect sock) s = disconnect sock s"
| "perform (TimerFires roomCode) s = timerFires roomCode s"

text \<open>Every state the server can be in: any events, in any order, with any generator.\<close>

inductive reachable :: "state \<Rightarrow> bool" where
  start: "reachable init"
| step: "reachable s \<Longrightarrow> reachable (perform a s)"

text \<open>
  The contract of the external generator: a call that succeeds returns exactly as many
  questions as it was asked for.
\<close>

fun admissible :: "action \<Rightarrow> state \<Rightarrow> bool" where
  "admissible (GenerationResumes n (Inr qs)) s =
     (if n < length (pendingGenerations s)
      then int (length qs) = g_count (pendingGenerations s ! n) else True)"
| "admissible a s = True"

text \<open>
  An event that does not interleave with a generation: the return of the generator, or
  any event when no \<^verbatim>\<open>generateQuestions\<close> handler is suspended.
\<close>

fun quiet :: "action \<Rightarrow> state \<Rightarrow> bool" where
  "quiet (GenerationResumes n result) s = True"
| "quiet a s = (pendingGenerations s = [])"

text \<open>
  The states reached when no other event is handled between a \<^verbatim>\<open>generateQuestions\<close>
  request and the return of its generator; with \<open>kept\<close>, the generator moreover keeps its
  contract.
\<close>

inductive reachableQuiet :: "bool \<Rightarrow> state \<Rightarrow> bool" where
  start: "reachableQuiet kept init"
| step: "reachableQuiet kept s \<Longrightarrow> quiet a s \<Longrightarrow> (kept \<longrightarrow> admissible a s)
         \<Longrightarrow> reachableQuiet kept (perform a s)"

subsection \<open>Guards\<close>

text \<open>
  \<open>rejected a s\<close>: event \<open>a\<close> fails one of the guards its handler tests before it mutates
  anything (room missing, caller not the admin, wrong status, room full, ...).
  \<^verbatim>\<open>createRoom\<close>, \<^verbatim>\<open>leaveRoom\<close>, \<^verbatim>\<open>disconnect\<close> and the timer have no such guard.
\<close>

fun rejected :: "action \<Rightarrow> state \<Rightarrow> bool" where
  "rejected (JoinRoom sock roomCode playerName clientId' now) s =
     (case rooms s (toUpperCase (orElse roomCode [])) of
        None \<Rightarrow> True
      | Some r \<Rightarrow>
          (\<not> canJoin r \<and>
             (\<not> truthy clientId' \<or> findIndex (\<lambda>p. clientId p = the clientId') (players r) = None))
          \<or> (canJoin r \<and> length (players r) \<ge> 10))"
| "rejected (RejoinRoom sock roomCode clientId' playerName) s =
     (toUpperCase (orElse roomCode []) = [] \<or> \<not> truthy clientId' \<or>
      (case rooms s (toUpperCase (orElse roomCode [])) of
         None \<Rightarrow> True
       | Some r \<Rightarrow> findIndex (\<lambda>p. clientId p = the clientId') (players r) = None \<and> \<not> canJoin r))"
| "rejected (UpdateSettings sock topic' difficulty' questionCount' questionTime') s =
     (case lookupRoom sock s of None \<Rightarrow> True | Some r \<Rightarrow> adminId r \<noteq> sid sock \<or> \<not> inLobby r)"
| "rejected (GenerateQuestions sock) s =
     (case lookupRoom sock s of None \<Rightarrow> True | Some r \<Rightarrow> adminId r \<noteq> sid sock \<or> \<not> inLobby r)"
| "rejected (StartQuiz sock) s =
     (case lookupRoom sock s of
        None \<Rightarrow> True
      | Some r \<Rightarrow> adminId r \<noteq> sid sock \<or> length (questions r) = 0 \<or> \<not> questionsReady r \<or>
                  (status r = Finished \<and> rematch r \<and> \<not> list_all (\<lambda>p. ready p) (players r)))"
| "rejected (SelectAnswer sock answer timeRemaining) s =
     (case lookupRoom sock s of
        None \<Rightarrow> True
      | Some r \<Rightarrow> status r \<noteq> Quiz \<or>
          (case findIndex (\<lambda>p. id_player p = sid sock) (players r) of
             None \<Rightarrow> True | Some i \<Rightarrow> answered (players r ! i)))"
| "rejected (NextQuestion sock) s =
     (case lookupRoom sock s of None \<Rightarrow> True | Some r \<Rightarrow> adminId r \<noteq> sid sock \<or> status r \<noteq> Quiz)"
| "rejected (PlayAgain sock) s =
     (case lookupRoom sock s of
        None \<Rightarrow> True
      | Some r \<Rightarrow> findIndex (\<lambda>p. id_player p = sid sock) (players r) = None)"
| "rejected a s = False"

text \<open>The handlers that answer a failed guard with an \<^verbatim>\<open>error\<close> event; the others just return.\<close>

fun reportsErrors :: "action \<Rightarrow> bool" where
  "reportsErrors (JoinRoom sock roomCode playerName clientId' now) = True"
| "reportsErrors (RejoinRoom sock roomCode clientId' playerName) = True"
| "reportsErrors (StartQuiz sock) = True"
| "reportsErrors a = False"

fun caller :: "action \<Rightarrow> string" where
  "caller (CreateRoom sock playerName topic' difficulty' questionCount' clientId' draws now) = sid sock"
| "caller (JoinRoom sock roomCode playerName clientId' now) = sid sock"
| "caller (RejoinRoom sock roomCode clientId' playerName) = sid sock"
| "caller (UpdateSettings sock topic' difficulty' questionCount' questionTime') = sid sock"
| "caller (GenerateQuestions sock) = sid sock"
| "caller (GenerationResumes n result) = []"
| "caller (StartQuiz sock) = sid sock"
| "caller (SelectAnswer sock answer timeRemaining) = sid sock"
| "caller (NextQuestion sock) = sid sock"
| "caller (PlayAgain sock) = sid sock"
| "caller (LeaveRoom sock) = sid sock"
| "caller (Disconnect sock) = sid sock"
| "caller (TimerFires roomCode) = []"

subsection \<open>Room invariants\<close>

text \<open>
  The bounds on \<^verbatim>\<open>currentQuestion\<close> and the question list, per room status. Those that
  compare \<^verbatim>\<open>currentQuestion\<close> with the question list (\<open>quietly\<close>) can be broken by a
  generator that returns late; the length of the list (\<open>kept\<close>) also by one that returns
  another number of questions than it was asked for.
\<close>

definition roomInv :: "bool \<Rightarrow> bool \<Rightarrow> room \<Rightarrow> bool" where
  "roomInv quietly kept r =
     (0 \<le> currentQuestion r
      \<and> (status r = Waiting \<longrightarrow> currentQuestion r = 0)
      \<and> (quietly \<longrightarrow>
          (status r = Quiz \<longrightarrow> currentQuestion r < int (length (questions r)))
          \<and> (status r = Finished \<and> \<not> rematch r \<longrightarrow> currentQuestion r = int (length (questions r))))
      \<and> (kept \<longrightarrow> questionsReady r \<longrightarrow> int (length (questions r)) = questionCount r))"


definition uniqueClientIds :: "room \<Rightarrow> bool" where
  "uniqueClientIds r = distinct (map clientId (players r))"

text \<open>
  The store as a whole: a room is stored under its own code and has a player, and a
  timer entry belongs to a stored room.
\<close>

definition storeOK :: "state \<Rightarrow> bool" where
  "storeOK s =
     ((\<forall>k r. rooms s k = Some r \<longrightarrow> code r = k \<and> players r \<noteq> [])
      \<and> (\<forall>k. rooms s k = None \<longrightarrow> questionTimers s k = None))"

section \<open>A sample session\<close>

definition sockA :: socket where
  "sockA = \<lparr>sid = ''sockA'', socketRooms1 = None\<rparr>"

definition sockB :: socket where
  "sockB = \<lparr>sid = ''sockB'', socketRooms1 = None\<rparr>"

definition sockC :: socket where
  "sockC = \<lparr>sid = ''sockC'', socketRooms1 = None\<rparr>"

definition q1 :: question where
  "q1 = \<lparr>id_question = ''q1'', question = ''Which planet is the largest?'',
         options = [''Mars'', ''Venus'', ''Earth'', ''Jupiter''], correctAnswer = 3,
         difficulty_question = ''easy''\<rparr>"

definition q2 :: question where
  "q2 = \<lparr>id_question = ''q2'', question = ''Which planet is closest to the sun?'',
         options = [''Mercury'', ''Venus'', ''Earth'', ''Mars''], correctAnswer = 0,
         difficulty_question = ''easy''\<rparr>"



text \<open>Ann creates room AB12CD for two questions, Bob joins: a lobby of two.\<close>

definition lobby1 :: state where
  "lobby1 = perform (CreateRoom sockA (Some ''Ann'') (Some ''Space'') (Some ''easy'') (Some 2)
                       (Some ''clientA'') [''ab12cd''] ''1700000000000'') init"

definition lobby2 :: state where
  "lobby2 = perform (JoinRoom sockB (Some ''ab12cd'') (Some ''Bob'') (Some ''clientB'') ''1700000000001'') lobby1"

text \<open>Questions are generated and the quiz runs to its end.\<close>

definition asked2 :: state where
  "asked2 = perform (GenerateQuestions sockA) lobby2"

definition ready2 :: state where
  "ready2 = perform (GenerationResumes 0 (Inr [q1, q2])) asked2"

definition round1 :: state where
  "round1 = perform (StartQuiz sockA) ready2"





text \<open>The players and the room of the session as first created.\<close>

definition ann :: player where
  "ann = newPlayer ''sockA'' ''clientA'' (Some ''Ann'')"

definition bob :: player where
  "bob = newPlayer ''sockB'' ''clientB'' (Some ''Bob'')"

definition roomAB :: room where
  "roomAB = \<lparr>id_room = ''AB12CD'', code = ''AB12CD'', adminId = ''sockA'', players = [ann],
              status = Waiting, currentQuestion = 0, totalQuestions = 2, questions = [],
              topic = ''Space'', difficulty = ''easy'', questionCount = 2, questionTime = 30,
              questionsReady = False, rematch = False, ref = 0\<rparr>"

text \<open>A second connection joins the lobby of one with Ann's client id.\<close>

definition twinJoin :: state where
  "twinJoin = perform (JoinRoom sockB (Some ''ab12cd'') (Some ''Ann'') (Some ''clientA'') ''1700000000001'') lobby1"

text \<open>Bob's connection drops during the first round; he comes back on a new connection.\<close>

definition bobDropped :: state where
  "bobDropped = perform (Disconnect sockB) round1"

definition bobReturns :: state where
  "bobReturns = perform (RejoinRoom sockC (Some ''AB12CD'') (Some ''clientB'') (Some ''Bob'')) bobDropped"

text \<open>Nine guests join Ann's lobby: a room of ten.\<close>

definition guest :: "char \<Rightarrow> socket" where
  "guest c = \<lparr>sid = ''guest'' @ [c], socketRooms1 = None\<rparr>"

definition fullLobby :: state where
  "fullLobby = fold (\<lambda>c. perform (JoinRoom (guest c) (Some ''ab12cd'') None None ''1700000000002''))
                 ''123456789'' lobby1"









text \<open>Ann reconnects during the first round and joins with her client id.\<close>

definition annRebound :: state where
  "annRebound = perform (JoinRoom sockC (Some ''ab12cd'') (Some ''Ann'') (Some ''clientA'') ''1700000000004'') round1"

section \<open>Facts about the helpers\<close>

lemma findIndex_Some:
  "findIndex P xs = Some i \<Longrightarrow> i < length xs \<and> P (xs ! i)"
proof (induction xs arbitrary: i)
  case Nil
  then show ?case by simp
next
  case (Cons x xs)
  then show ?case by (auto split: if_splits)
qed

lemma findIndex_None: "findIndex P xs = None \<longleftrightarrow> (\<forall>x \<in> set xs. \<not> P x)"
  by (induction xs) auto

lemma findIndex_update_same:
  assumes "\<And>p. P (f p) = P p"
  shows "findIndex P (xs[j := f (xs ! j)]) = findIndex P xs"
proof (induction xs arbitrary: j)
  case Nil
  then show ?case by simp
next
  case (Cons x xs)
  then show ?case using assms by (cases j) simp_all
qed

lemma freshCode_Some: "freshCode draws rs = Some k \<Longrightarrow> rs k = None"
  by (induction draws) (auto split: if_splits)

lemma timeBonus_div: "timeBonus m t = (t * 10) div m"
proof -
  have "(of_int t / of_int m :: rat) * 10 = of_int (t * 10) / of_int m" by simp
  then show ?thesis unfolding timeBonus_def by (simp only: floor_divide_of_int_eq)
qed

lemma splice1_length: "i < length xs \<Longrightarrow> length (splice1 i xs) = length xs - 1"
  by (simp add: splice1_def)

lemma list_all_autoSubmit: "list_all (\<lambda>p. answered p) (map autoSubmit ps)"
  by (induction ps) (simp_all add: autoSubmit_def)

lemma roomKey_rooms_upd [simp]: "roomKey sock (s\<lparr>rooms := x\<rparr>) = roomKey sock s"
  by (simp add: roomKey_def)

lemma roomKey_emit [simp]: "roomKey sock (emit t e s) = roomKey sock s"
  by (simp add: roomKey_def emit_def)

lemma roomKey_clearQuestionTimer [simp]: "roomKey sock (clearQuestionTimer k s) = roomKey sock s"
  by (simp add: roomKey_def clearQuestionTimer_def split: option.splits)

lemma rooms_emit [simp]: "rooms (emit t e s) = rooms s"
  by (simp add: emit_def)

lemma rooms_clearQuestionTimer [simp]: "rooms (clearQuestionTimer k s) = rooms s"
  by (simp add: clearQuestionTimer_def split: option.splits)

lemma rooms_startQuestionTimer [simp]: "rooms (startQuestionTimer k r s) = rooms s"
  by (simp add: startQuestionTimer_def Let_def)

lemma rooms_joined [simp]: "rooms (joined sock rc r' pid s) = (rooms s)(rc \<mapsto> r')"
  by (simp add: joined_def)

lemma questionTimers_clearQuestionTimer [simp]:
  "questionTimers (clearQuestionTimer k s) = (questionTimers s)(k := None)"
  by (auto simp: clearQuestionTimer_def split: option.splits)

lemma questionTimers_emit [simp]: "questionTimers (emit t e s) = questionTimers s"
  by (simp add: emit_def)

lemma questionTimers_startQuestionTimer [simp]:
  "questionTimers (startQuestionTimer k r s) = (questionTimers s)(k \<mapsto> Pending (numOr (Some (questionTime r)) 30 * 1000))"
  by (simp add: startQuestionTimer_def Let_def)

lemma questionTimers_joined [simp]: "questionTimers (joined sock rc r' pid s) = questionTimers s"
  by (simp add: joined_def)

lemma socketRoomMap_emit [simp]: "socketRoomMap (emit t e s) = socketRoomMap s"
  by (simp add: emit_def)

lemma socketRoomMap_startQuestionTimer [simp]: "socketRoomMap (startQuestionTimer k r s) = socketRoomMap s"
  by (simp add: startQuestionTimer_def clearQuestionTimer_def Let_def split: option.splits)

lemma roomKey_startQuestionTimer [simp]: "roomKey sock (startQuestionTimer k r s) = roomKey sock s"
  by (simp add: roomKey_def)

lemma emitted_startQuestionTimer [simp]: "emitted (startQuestionTimer k r s) = emitted s"
  by (simp add: startQuestionTimer_def clearQuestionTimer_def Let_def split: option.splits)

section \<open>The room invariant is kept by every event\<close>

lemma roomInv_players [simp]: "roomInv q kept (r\<lparr>players := ps\<rparr>) = roomInv q kept r"
  by (simp add: roomInv_def)

lemma roomInv_adminId [simp]: "roomInv q kept (r\<lparr>adminId := a\<rparr>) = roomInv q kept r"
  by (simp add: roomInv_def)


lemma roomInv_rebind [simp]: "roomInv q kept (rebind i x r) = roomInv q kept r"
  by (simp add: rebind_def)




lemma rooms_generateQuestions [simp]: "rooms (generateQuestions sock s) = rooms s"
  by (simp add: generateQuestions_def emit_def split: option.splits)















section \<open>Runs in which no event interrupts a generation\<close>

lemma pending_emit [simp]: "pendingGenerations (emit t e s) = pendingGenerations s"
  by (simp add: emit_def)

lemma pending_joined [simp]: "pendingGenerations (joined sock rc r' pid s) = pendingGenerations s"
  by (simp add: joined_def)

lemma pending_clearQuestionTimer [simp]: "pendingGenerations (clearQuestionTimer k s) = pendingGenerations s"
  by (simp add: clearQuestionTimer_def split: option.splits)

lemma pending_startQuestionTimer [simp]: "pendingGenerations (startQuestionTimer k r s) = pendingGenerations s"
  by (simp add: startQuestionTimer_def Let_def)

lemma pending_removePlayer [simp]: "pendingGenerations (removePlayer rc r idx w s) = pendingGenerations s"
  by (simp add: removePlayer_def Let_def)


lemma pending_joinRoom [simp]: "pendingGenerations (joinRoom sock rc pn cid now s) = pendingGenerations s"
  by (simp add: joinRoom_def Let_def split: option.splits)

lemma pending_rejoinRoom [simp]: "pendingGenerations (rejoinRoom sock rc cid pn s) = pendingGenerations s"
  by (simp add: rejoinRoom_def Let_def split: option.splits)

lemma pending_updateSettings [simp]: "pendingGenerations (updateSettings sock t d qc qt s) = pendingGenerations s"
  by (simp add: updateSettings_def Let_def split: option.splits)

lemma pending_startQuiz [simp]: "pendingGenerations (startQuiz sock s) = pendingGenerations s"
  by (simp add: startQuiz_def Let_def split: option.splits)

lemma pending_selectAnswer [simp]:
  "pendingGenerations (after (selectAnswer sock answer tr s)) = pendingGenerations s"
  by (simp add: selectAnswer_def Let_def split: option.splits)

lemma pending_nextQuestion [simp]: "pendingGenerations (nextQuestion sock s) = pendingGenerations s"
  by (simp add: nextQuestion_def Let_def split: option.splits)

lemma pending_playAgain [simp]: "pendingGenerations (playAgain sock s) = pendingGenerations s"
  by (simp add: playAgain_def Let_def split: option.splits)

lemma pending_leaveRoom [simp]: "pendingGenerations (leaveRoom sock s) = pendingGenerations s"
  by (simp add: leaveRoom_def Let_def split: option.splits)

lemma pending_disconnect [simp]: "pendingGenerations (disconnect sock s) = pendingGenerations s"
  by (simp add: disconnect_def Let_def split: option.splits)

lemma pending_timerFires [simp]: "pendingGenerations (timerFires rc s) = pendingGenerations s"
  by (simp add: timerFires_def Let_def split: option.splits timer.splits)

lemma pending_resume [simp]:
  "pendingGenerations (generateQuestions_resume g result s) = pendingGenerations s"
  by (simp add: generateQuestions_resume_def writeCaptured_def Let_def split: sum.splits option.splits)







lemma reachableQuiet_reachable: "reachableQuiet kept s \<Longrightarrow> reachable s"
  by (induction rule: reachableQuiet.induct) (auto intro: reachable.intros)

section \<open>The store invariant is kept by every event\<close>

lemma storeOK_same:
  "rooms s' = rooms s \<Longrightarrow> questionTimers s' = questionTimers s \<Longrightarrow> storeOK s' = storeOK s"
  by (simp add: storeOK_def)

lemma storeOK_emit [simp]: "storeOK (emit t e s) = storeOK s"
  by (simp add: storeOK_def)

lemma storeOK_update:
  assumes "storeOK s" and "rooms s k = Some r" and "code r' = code r" and "players r' \<noteq> []"
    and "rooms s' = (rooms s)(k \<mapsto> r')"
    and "questionTimers s' = questionTimers s \<or> questionTimers s' = (questionTimers s)(code r := None)
         \<or> (\<exists>t. questionTimers s' = (questionTimers s)(code r \<mapsto> t))"
  shows "storeOK s'"
proof -
  from assms(1,2) have c: "code r = k" by (simp add: storeOK_def)
  from assms(6) have t: "\<forall>j. j \<noteq> k \<longrightarrow> questionTimers s' j = questionTimers s j"
    unfolding c by auto
  have a: "code x = j \<and> players x \<noteq> []" if "rooms s' j = Some x" for j x
    using that assms(1,3,4,5) c by (cases "j = k") (auto simp: storeOK_def)
  have b: "questionTimers s' j = None" if "rooms s' j = None" for j
  proof -
    from that assms(5) have "j \<noteq> k" "rooms s j = None" by (auto split: if_splits)
    with assms(1) t show ?thesis by (simp add: storeOK_def)
  qed
  from a b show ?thesis unfolding storeOK_def by blast
qed

lemma storeOK_players: "storeOK s \<Longrightarrow> rooms s k = Some r \<Longrightarrow> players r \<noteq> []"
  by (simp add: storeOK_def)

lemma storeOK_code: "storeOK s \<Longrightarrow> rooms s k = Some r \<Longrightarrow> code r = k"
  by (simp add: storeOK_def)

lemma storeOK_clearQuestionTimer: "storeOK s \<Longrightarrow> storeOK (clearQuestionTimer k s)"
  by (simp add: storeOK_def)

lemma storeOK_startQuestionTimer:
  "storeOK s \<Longrightarrow> rooms s k \<noteq> None \<Longrightarrow> storeOK (startQuestionTimer k r s)"
  by (simp add: storeOK_def)

lemma storeOK_rooms_upd:
  assumes "storeOK s" and "rooms s k = Some r" and "code r' = code r" and "players r' \<noteq> []"
  shows "storeOK (s\<lparr>rooms := (rooms s)(k \<mapsto> r')\<rparr>)"
  by (rule storeOK_update [OF assms]) simp_all

lemma store_createRoom:
  assumes "storeOK s" and "createRoom sock pn t d qc cid draws now s = Some s'"
  shows "storeOK s'"
proof -
  from assms(2) obtain k r where k: "freshCode draws (rooms s) = Some k"
    and s': "rooms s' = (rooms s)(k \<mapsto> r)" "questionTimers s' = questionTimers s"
    and r: "code r = k" "players r \<noteq> []"
    by (auto simp: createRoom_def Let_def split: option.splits)
  from k have "rooms s k = None" by (rule freshCode_Some)
  with assms(1) s' r show ?thesis by (auto simp: storeOK_def)
qed

lemma store_joined:
  assumes "storeOK s" and "rooms s rc = Some r" and "code r' = code r" and "players r' \<noteq> []"
  shows "storeOK (joined sock rc r' pid s)"
  by (rule storeOK_update [OF assms]) simp_all

lemma store_joinRoom:
  assumes "storeOK s"
  shows "storeOK (joinRoom sock rc pn cid now s)"
proof (cases "rooms s (toUpperCase (orElse rc []))")
  case None
  with assms show ?thesis by (simp add: joinRoom_def Let_def)
next
  case (Some r)
  from storeOK_players [OF assms Some] have ne: "players r \<noteq> []" .
  have a: "storeOK (joined sock (toUpperCase (orElse rc [])) (rebind i (sid sock) r) (sid sock) s)" for i
    by (rule store_joined [OF assms Some]) (simp_all add: rebind_def ne)
  have b: "storeOK (joined sock (toUpperCase (orElse rc [])) (r\<lparr>players := players r @ [p]\<rparr>) (sid sock) s)" for p
    by (rule store_joined [OF assms Some]) simp_all
  from Some assms a b show ?thesis
    by (simp add: joinRoom_def Let_def split: option.splits)
qed

lemma store_rejoinRoom:
  assumes "storeOK s"
  shows "storeOK (rejoinRoom sock rc cid pn s)"
proof (cases "rooms s (toUpperCase (orElse rc []))")
  case None
  with assms show ?thesis by (simp add: rejoinRoom_def Let_def)
next
  case (Some r)
  from storeOK_players [OF assms Some] have ne: "players r \<noteq> []" .
  have a: "storeOK (joined sock (toUpperCase (orElse rc [])) (rebind i (sid sock) r) (sid sock) s)" for i
    by (rule store_joined [OF assms Some]) (simp_all add: rebind_def ne)
  have b: "storeOK (joined sock (toUpperCase (orElse rc [])) (r\<lparr>players := players r @ [p]\<rparr>) (sid sock) s)" for p
    by (rule store_joined [OF assms Some]) simp_all
  from Some assms a b show ?thesis
    by (simp add: rejoinRoom_def Let_def split: option.splits)
qed

lemma store_updateSettings:
  assumes "storeOK s"
  shows "storeOK (updateSettings sock t d qc qt s)"
proof (cases "lookupRoom sock s")
  case None
  with assms show ?thesis by (simp add: updateSettings_def)
next
  case (Some r)
  then have r: "rooms s (roomKey sock s) = Some r" by (simp add: lookupRoom_def)
  from storeOK_players [OF assms r] have ne: "players r \<noteq> []" .
  show ?thesis
  proof (cases "adminId r = sid sock \<and> inLobby r")
    case False
    with Some assms show ?thesis by (auto simp: updateSettings_def)
  next
    case True
    define r5 where "r5 = (let r1 = (case t of Some t \<Rightarrow> r\<lparr>topic := t\<rparr> | None \<Rightarrow> r);
                 r2 = (case d of Some d \<Rightarrow> r1\<lparr>difficulty := d\<rparr> | None \<Rightarrow> r1);
                 r3 = (case qc of
                         Some n \<Rightarrow> r2\<lparr>questionCount := max 1 (min 20 n),
                                       totalQuestions := max 1 (min 20 n)\<rparr>
                       | None \<Rightarrow> r2);
                 r4 = (case qt of
                         Some n \<Rightarrow> r3\<lparr>questionTime := (if n \<in> set allowed then n else 30)\<rparr>
                       | None \<Rightarrow> r3)
             in r4\<lparr>questions := [], questionsReady := False\<rparr>)"
    have eq: "updateSettings sock t d qc qt s
               = emit (ToRoom (code r5)) (RoomUpdated r5) (s\<lparr>rooms := (rooms s)(roomKey sock s \<mapsto> r5)\<rparr>)"
      using Some True by (simp add: updateSettings_def r5_def Let_def)
    have c: "code r5 = code r" "players r5 = players r"
      by (simp_all add: r5_def Let_def split: option.splits)
    show ?thesis
      unfolding eq
      by (rule storeOK_update [OF assms r c(1)]) (simp_all add: c ne emit_def)
  qed
qed

lemma store_generateQuestions:
  assumes "storeOK s"
  shows "storeOK (generateQuestions sock s)"
proof -
  have "rooms (generateQuestions sock s) = rooms s" by simp
  moreover have "questionTimers (generateQuestions sock s) = questionTimers s"
    by (simp add: generateQuestions_def split: option.splits)
  ultimately show ?thesis using assms by (simp add: storeOK_def)
qed

lemma store_resume:
  assumes "storeOK s"
  shows "storeOK (generateQuestions_resume g result s)"
proof (cases result)
  case (Inl msg)
  with assms show ?thesis by (simp add: generateQuestions_resume_def storeOK_emit)
next
  case (Inr qs)
  show ?thesis
  proof (cases "captured g s")
    case None
    with Inr assms show ?thesis by (simp add: generateQuestions_resume_def)
  next
    case (Some r)
    have "storeOK (writeCaptured g (r\<lparr>questions := qs, questionsReady := True\<rparr>) s)"
    proof (cases "isLive g s")
      case True
      with Some have r: "rooms s (g_key g) = Some r" by (simp add: captured_def)
      have "storeOK (s\<lparr>rooms := (rooms s)(g_key g \<mapsto> r\<lparr>questions := qs, questionsReady := True\<rparr>)\<rparr>)"
        by (rule storeOK_rooms_upd [OF assms r]) (simp_all add: storeOK_players [OF assms r])
      with True show ?thesis by (simp add: writeCaptured_def)
    next
      case False
      have "storeOK (s\<lparr>orphans := (orphans s)(g_room g \<mapsto> r\<lparr>questions := qs, questionsReady := True\<rparr>)\<rparr>)"
        using assms by (simp add: storeOK_def)
      with False show ?thesis by (simp add: writeCaptured_def)
    qed
    with Inr Some show ?thesis
      by (simp add: generateQuestions_resume_def Let_def storeOK_emit)
  qed
qed

lemma store_startQuiz:
  assumes "storeOK s"
  shows "storeOK (startQuiz sock s)"
proof (cases "lookupRoom sock s")
  case None
  with assms show ?thesis by (simp add: startQuiz_def)
next
  case (Some r)
  then have r: "rooms s (roomKey sock s) = Some r" by (simp add: lookupRoom_def)
  from storeOK_players [OF assms r] have ne: "players r \<noteq> []" .
  from storeOK_code [OF assms r] have c: "code r = roomKey sock s" .
  define r' where "r' = r\<lparr>players := map resetMatch (players r), rematch := False,
                        status := Quiz, currentQuestion := 0\<rparr>"
  have r': "code r' = code r" "players r' \<noteq> []" by (simp_all add: r'_def ne)
  have 1: "storeOK (s\<lparr>rooms := (rooms s)(roomKey sock s \<mapsto> r')\<rparr>)"
    by (rule storeOK_rooms_upd [OF assms r r'])
  have "storeOK (startQuestionTimer (code r') r'
                  (emit (ToRoom (code r')) (QuizStarted r') (s\<lparr>rooms := (rooms s)(roomKey sock s \<mapsto> r')\<rparr>)))"
    by (rule storeOK_startQuestionTimer) (simp_all add: 1 r' c)
  with Some assms show ?thesis by (simp add: startQuiz_def Let_def r'_def)
qed

lemma store_selectAnswer:
  assumes "storeOK s"
  shows "storeOK (after (selectAnswer sock answer tr s))"
proof (cases "lookupRoom sock s")
  case None
  with assms show ?thesis by (simp add: selectAnswer_def)
next
  case (Some r)
  then have r: "rooms s (roomKey sock s) = Some r" by (simp add: lookupRoom_def)
  from storeOK_players [OF assms r] have ne: "players r \<noteq> []" .
  have 1: "storeOK (s\<lparr>rooms := (rooms s)(roomKey sock s \<mapsto> r\<lparr>players := (players r)[i := p]\<rparr>)\<rparr>)" for i p
    by (rule storeOK_rooms_upd [OF assms r]) (simp_all add: ne)
  show ?thesis
  proof (cases "findIndex (\<lambda>p. id_player p = sid sock) (players r)")
    case None
    with Some assms show ?thesis by (simp add: selectAnswer_def)
  next
    case (Some i)
    with \<open>lookupRoom sock s = Some r\<close> assms 1 show ?thesis
      by (simp add: selectAnswer_def Let_def storeOK_clearQuestionTimer)
  qed
qed

lemma store_nextQuestion:
  assumes "storeOK s"
  shows "storeOK (nextQuestion sock s)"
proof (cases "lookupRoom sock s")
  case None
  with assms show ?thesis by (simp add: nextQuestion_def)
next
  case (Some r)
  then have r: "rooms s (roomKey sock s) = Some r" by (simp add: lookupRoom_def)
  from storeOK_players [OF assms r] have ne: "players r \<noteq> []" .
  from storeOK_code [OF assms r] have c: "code r = roomKey sock s" .
  define r1 where "r1 = r\<lparr>players := map resetRound (players r),
                        currentQuestion := currentQuestion r + 1\<rparr>"
  have 1: "storeOK (s\<lparr>rooms := (rooms s)(roomKey sock s \<mapsto> r1)\<rparr>)"
    by (rule storeOK_rooms_upd [OF assms r]) (simp_all add: r1_def ne)
  have 2: "storeOK (s\<lparr>rooms := (rooms s)(roomKey sock s \<mapsto> r1\<lparr>status := Finished\<rparr>)\<rparr>)"
    by (rule storeOK_rooms_upd [OF assms r]) (simp_all add: r1_def ne)
  have 3: "storeOK (startQuestionTimer (code r1) r1
                     (emit (ToRoom (code r1)) (QuestionUpdated r1) (s\<lparr>rooms := (rooms s)(roomKey sock s \<mapsto> r1)\<rparr>)))"
    by (rule storeOK_startQuestionTimer) (simp_all add: 1, simp add: r1_def c)
  from Some assms 2 3 show ?thesis
    by (simp add: nextQuestion_def Let_def r1_def)
qed

lemma store_playAgain:
  assumes "storeOK s"
  shows "storeOK (playAgain sock s)"
proof (cases "lookupRoom sock s")
  case None
  with assms show ?thesis by (simp add: playAgain_def)
next
  case (Some r)
  then have r: "rooms s (roomKey sock s) = Some r" by (simp add: lookupRoom_def)
  from storeOK_players [OF assms r] have ne: "players r \<noteq> []" .
  have 1: "storeOK (s\<lparr>rooms := (rooms s)(roomKey sock s \<mapsto>
              r\<lparr>rematch := True, players := (players r)[i := p], questionsReady := False\<rparr>)\<rparr>)" for i p
    by (rule storeOK_rooms_upd [OF assms r]) (simp_all add: ne)
  from Some assms 1 show ?thesis
    by (simp add: playAgain_def Let_def split: option.splits)
qed

lemma store_removePlayer:
  assumes "storeOK s" and "rooms s rc = Some r"
  shows "storeOK (removePlayer rc r idx b s)"
proof (cases "length (splice1 idx (players r)) = 0")
  case True
  have "storeOK (s\<lparr>rooms := (rooms s)(rc := None), orphans := x,
                    questionTimers := (questionTimers s)(rc := None)\<rparr>)" for x
    using assms(1) by (simp add: storeOK_def)
  moreover have "storeOK (s\<lparr>rooms := (rooms s)(rc := None), orphans := x\<rparr>)"
    if "questionTimers s rc = None" for x
    using assms(1) that by (simp add: storeOK_def)
  ultimately show ?thesis using True
    by (simp add: removePlayer_def Let_def clearQuestionTimer_def split: option.splits)
next
  case False
  then have ne: "splice1 idx (players r) \<noteq> []" by simp
  have 1: "storeOK (s\<lparr>rooms := (rooms s)(rc \<mapsto> r\<lparr>players := splice1 idx (players r)\<rparr>)\<rparr>)"
    by (rule storeOK_rooms_upd [OF assms]) (simp_all add: ne)
  have 2: "storeOK (s\<lparr>rooms := (rooms s)(rc \<mapsto> r\<lparr>players := splice1 idx (players r), adminId := a\<rparr>)\<rparr>)" for a
    by (rule storeOK_rooms_upd [OF assms]) (simp_all add: ne)
  from False 1 2 show ?thesis
    by (simp add: removePlayer_def Let_def)
qed

lemma store_leaveRoom:
  assumes "storeOK s"
  shows "storeOK (leaveRoom sock s)"
proof (cases "truthy (socketRoomMap s (sid sock))")
  case False
  with assms show ?thesis by (simp add: leaveRoom_def)
next
  case True
  define s1 where "s1 = s\<lparr>socketRoomMap := (socketRoomMap s)(sid sock := None)\<rparr>"
  have s1: "storeOK s1" using assms by (simp add: s1_def storeOK_def)
  have rs: "rooms s1 = rooms s" by (simp add: s1_def)
  show ?thesis
  proof (cases "rooms s (the (socketRoomMap s (sid sock)))")
    case None
    with True s1 show ?thesis by (simp add: leaveRoom_def Let_def s1_def)
  next
    case (Some r)
    with rs have "rooms s1 (the (socketRoomMap s (sid sock))) = Some r" by simp
    from store_removePlayer [OF s1 this] True Some s1 show ?thesis
      by (simp add: leaveRoom_def Let_def s1_def split: option.splits)
  qed
qed

lemma store_disconnect:
  assumes "storeOK s"
  shows "storeOK (disconnect sock s)"
proof (cases "truthy (socketRoomMap s (sid sock))")
  case False
  with assms show ?thesis by (simp add: disconnect_def)
next
  case True
  define s1 where "s1 = s\<lparr>socketRoomMap := (socketRoomMap s)(sid sock := None)\<rparr>"
  have s1: "storeOK s1" using assms by (simp add: s1_def storeOK_def)
  have rs: "rooms s1 = rooms s" by (simp add: s1_def)
  show ?thesis
  proof (cases "rooms s (the (socketRoomMap s (sid sock)))")
    case None
    with True s1 show ?thesis by (simp add: disconnect_def Let_def s1_def)
  next
    case (Some r)
    with rs have "rooms s1 (the (socketRoomMap s (sid sock))) = Some r" by simp
    from store_removePlayer [OF s1 this] True Some s1 show ?thesis
      by (simp add: disconnect_def Let_def s1_def split: option.splits)
  qed
qed

lemma store_timerFires:
  assumes "storeOK s"
  shows "storeOK (timerFires rc s)"
proof (cases "rooms s rc")
  case None
  with assms have "questionTimers s rc = None" by (simp add: storeOK_def)
  then show ?thesis using assms by (simp add: timerFires_def)
next
  case (Some r)
  from storeOK_players [OF assms Some] have ne: "players r \<noteq> []" .
  from storeOK_code [OF assms Some] have c: "code r = rc" .
  have 1: "storeOK (s\<lparr>rooms := (rooms s)(rc \<mapsto> r\<lparr>players := map autoSubmit (players r)\<rparr>),
                       questionTimers := (questionTimers s)(rc \<mapsto> t), emitted := e\<rparr>)" for t e
    by (rule storeOK_update [OF assms Some, of "r\<lparr>players := map autoSubmit (players r)\<rparr>"])
       (auto simp: ne c)
  from Some assms 1 show ?thesis
    by (simp add: timerFires_def Let_def split: option.splits timer.splits)
qed

lemma store_perform:
  assumes "storeOK s"
  shows "storeOK (perform a s)"
proof (cases a)
  case (CreateRoom sock pn t d qc cid draws now)
  show ?thesis
  proof (cases "createRoom sock pn t d qc cid draws now s")
    case None
    with CreateRoom assms show ?thesis by simp
  next
    case (Some s')
    with CreateRoom store_createRoom [OF assms Some] show ?thesis by simp
  qed
next
  case (JoinRoom sock rc pn cid now)
  then show ?thesis using store_joinRoom [OF assms] by (simp only: perform.simps)
next
  case (RejoinRoom sock rc cid pn)
  then show ?thesis using store_rejoinRoom [OF assms] by (simp only: perform.simps)
next
  case (UpdateSettings sock t d qc qt)
  then show ?thesis using store_updateSettings [OF assms] by (simp only: perform.simps)
next
  case (GenerateQuestions sock)
  then show ?thesis using store_generateQuestions [OF assms] by (simp only: perform.simps)
next
  case (GenerationResumes n result)
  have "storeOK (s\<lparr>pendingGenerations := x\<rparr>)" for x using assms by (simp add: storeOK_def)
  from store_resume [OF this] GenerationResumes assms show ?thesis by simp
next
  case (StartQuiz sock)
  then show ?thesis using store_startQuiz [OF assms] by (simp only: perform.simps)
next
  case (SelectAnswer sock answer tr)
  then show ?thesis using store_selectAnswer [OF assms] by (simp only: perform.simps)
next
  case (NextQuestion sock)
  then show ?thesis using store_nextQuestion [OF assms] by (simp only: perform.simps)
next
  case (PlayAgain sock)
  then show ?thesis using store_playAgain [OF assms] by (simp only: perform.simps)
next
  case (LeaveRoom sock)
  then show ?thesis using store_leaveRoom [OF assms] by (simp only: perform.simps)
next
  case (Disconnect sock)
  then show ?thesis using store_disconnect [OF assms] by (simp only: perform.simps)
next
  case (TimerFires rc)
  then show ?thesis using store_timerFires [OF assms] by (simp only: perform.simps)
qed

lemma reachable_storeOK: "reachable s \<Longrightarrow> storeOK s"
proof (induction rule: reachable.induct)
  case start
  then show ?case by (simp add: init_def storeOK_def)
next
  case (step s a)
  then show ?case using store_perform by blast
qed

section \<open>The states of the sample session\<close>

lemma upper_ab12cd: "toUpperCase ''ab12cd'' = ''AB12CD''"
  by code_simp

lemma upper_AB12CD: "toUpperCase ''AB12CD'' = ''AB12CD''"
  by code_simp

lemma roomKey_AB12CD:
  "socketRoomMap s (sid sock) = Some ''AB12CD'' \<Longrightarrow> roomKey sock s = ''AB12CD''"
  by (simp add: roomKey_def truthy_def orElse_def upper_AB12CD)

lemma sid_sockA: "sid sockA = ''sockA''"
  by (simp add: sockA_def)

lemma sid_sockB: "sid sockB = ''sockB''"
  by (simp add: sockB_def)

lemma sid_sockC: "sid sockC = ''sockC''"
  by (simp add: sockC_def)

lemma lobby1_rooms: "rooms lobby1 = [''AB12CD'' \<mapsto> roomAB]"
  by (simp add: lobby1_def createRoom_def init_def upper_ab12cd Let_def roomAB_def ann_def
      sockA_def orElse_def numOr_def)

lemma lobby1_sockets: "socketRoomMap lobby1 = [''sockA'' \<mapsto> ''AB12CD'']"
  by (simp add: lobby1_def createRoom_def init_def upper_ab12cd Let_def sockA_def)

lemma lobby1_timers: "questionTimers lobby1 = Map.empty"
  by (simp add: lobby1_def createRoom_def init_def upper_ab12cd Let_def sockA_def)

lemma lobby2_rooms: "rooms lobby2 = [''AB12CD'' \<mapsto> roomAB\<lparr>players := [ann, bob]\<rparr>]"
  by (simp add: lobby2_def joinRoom_def joined_def lobby1_rooms upper_ab12cd Let_def roomAB_def
      canJoin_def bob_def sid_sockB orElse_def)

lemma lobby2_sockets: "socketRoomMap lobby2 = [''sockA'' \<mapsto> ''AB12CD'', ''sockB'' \<mapsto> ''AB12CD'']"
  by (simp add: lobby2_def joinRoom_def joined_def lobby1_rooms lobby1_sockets upper_ab12cd Let_def
      roomAB_def canJoin_def sid_sockB orElse_def)

lemma lobby2_timers: "questionTimers lobby2 = Map.empty"
  by (simp add: lobby2_def joinRoom_def joined_def lobby1_rooms lobby1_timers upper_ab12cd Let_def
      roomAB_def canJoin_def sid_sockB orElse_def)

lemma sockA_key:
  "socketRoomMap s ''sockA'' = Some ''AB12CD'' \<Longrightarrow> roomKey sockA s = ''AB12CD''"
  by (rule roomKey_AB12CD) (simp add: sid_sockA)

lemma sockB_key:
  "socketRoomMap s ''sockB'' = Some ''AB12CD'' \<Longrightarrow> roomKey sockB s = ''AB12CD''"
  by (rule roomKey_AB12CD) (simp add: sid_sockB)

lemma lobby1_pending: "pendingGenerations lobby1 = []"
  by (simp add: lobby1_def createRoom_def init_def upper_ab12cd Let_def)

lemma lobby2_pending: "pendingGenerations lobby2 = []"
  by (simp add: lobby2_def lobby1_pending)

lemma asked2_rooms: "rooms asked2 = [''AB12CD'' \<mapsto> roomAB\<lparr>players := [ann, bob]\<rparr>]"
  by (simp add: asked2_def lobby2_rooms)

lemma asked2_sockets: "socketRoomMap asked2 = [''sockA'' \<mapsto> ''AB12CD'', ''sockB'' \<mapsto> ''AB12CD'']"
  by (simp add: asked2_def generateQuestions_def lookupRoom_def sockA_key lobby2_rooms lobby2_sockets
      roomAB_def inLobby_def sid_sockA)

lemma asked2_timers: "questionTimers asked2 = Map.empty"
  by (simp add: asked2_def generateQuestions_def lookupRoom_def sockA_key lobby2_rooms lobby2_sockets
      lobby2_timers roomAB_def inLobby_def sid_sockA)

lemma asked2_pending:
  "pendingGenerations asked2 = [\<lparr>g_room = 0, g_key = ''AB12CD'', g_socket = ''sockA'', g_count = 2\<rparr>]"
  by (simp add: asked2_def generateQuestions_def lookupRoom_def sockA_key lobby2_rooms lobby2_sockets
      lobby2_pending roomAB_def inLobby_def sid_sockA)

lemma ready2_rooms:
  "rooms ready2 = [''AB12CD'' \<mapsto> roomAB\<lparr>players := [ann, bob], questions := [q1, q2], questionsReady := True\<rparr>]"
  by (simp add: ready2_def asked2_pending asked2_rooms generateQuestions_resume_def captured_def
      writeCaptured_def isLive_def roomAB_def Let_def splice1_def)

lemma ready2_sockets: "socketRoomMap ready2 = [''sockA'' \<mapsto> ''AB12CD'', ''sockB'' \<mapsto> ''AB12CD'']"
  by (simp add: ready2_def asked2_pending asked2_rooms asked2_sockets generateQuestions_resume_def
      captured_def writeCaptured_def isLive_def roomAB_def Let_def splice1_def)

lemma ready2_timers: "questionTimers ready2 = Map.empty"
  by (simp add: ready2_def asked2_pending asked2_rooms asked2_timers generateQuestions_resume_def
      captured_def writeCaptured_def isLive_def roomAB_def Let_def splice1_def)

lemma ready2_pending: "pendingGenerations ready2 = []"
  by (simp add: ready2_def asked2_pending splice1_def)





lemma round1_rooms:
  "rooms round1 = [''AB12CD'' \<mapsto> roomAB\<lparr>players := [ann, bob], questions := [q1, q2],
                                          questionsReady := True, status := Quiz\<rparr>]"
  by (simp add: round1_def startQuiz_def lookupRoom_def sockA_key ready2_rooms ready2_sockets
      roomAB_def Let_def sid_sockA resetMatch_def ann_def bob_def newPlayer_def)

lemma round1_sockets: "socketRoomMap round1 = [''sockA'' \<mapsto> ''AB12CD'', ''sockB'' \<mapsto> ''AB12CD'']"
  by (simp add: round1_def startQuiz_def lookupRoom_def sockA_key ready2_rooms ready2_sockets
      roomAB_def Let_def sid_sockA)

lemma round1_timers: "questionTimers round1 = [''AB12CD'' \<mapsto> Pending 30000]"
  by (simp add: round1_def startQuiz_def lookupRoom_def sockA_key ready2_rooms ready2_sockets
      ready2_timers roomAB_def Let_def sid_sockA startQuestionTimer_def numOr_def)








lemma quiet_lobby1: "reachableQuiet kept lobby1"
  unfolding lobby1_def by (rule reachableQuiet.step [OF reachableQuiet.start]) (simp_all add: init_def)

lemma quiet_lobby2: "reachableQuiet kept lobby2"
  unfolding lobby2_def by (rule reachableQuiet.step [OF quiet_lobby1]) (simp_all add: lobby1_pending)

lemma quiet_asked2: "reachableQuiet kept asked2"
  unfolding asked2_def by (rule reachableQuiet.step [OF quiet_lobby2]) (simp_all add: lobby2_pending)

lemma quiet_ready2: "reachableQuiet kept ready2"
  unfolding ready2_def by (rule reachableQuiet.step [OF quiet_asked2]) (simp_all add: asked2_pending)

lemma quiet_round1: "reachableQuiet kept round1"
  unfolding round1_def by (rule reachableQuiet.step [OF quiet_ready2]) (simp_all add: ready2_pending)






lemma reachable_round1: "reachable round1"
  by (rule reachableQuiet_reachable [OF quiet_round1])






lemma bobDropped_rooms:
  "rooms bobDropped = [''AB12CD'' \<mapsto> roomAB\<lparr>players := [ann], questions := [q1, q2],
                                            questionsReady := True, status := Quiz\<rparr>]"
  by (simp add: bobDropped_def disconnect_def removePlayer_def round1_rooms round1_sockets sid_sockB
      truthy_def Let_def roomAB_def ann_def bob_def newPlayer_def splice1_def)

lemma bobDropped_sockets: "socketRoomMap bobDropped = [''sockA'' \<mapsto> ''AB12CD'']"
  by (simp add: bobDropped_def disconnect_def removePlayer_def round1_rooms round1_sockets sid_sockB
      truthy_def Let_def roomAB_def ann_def bob_def newPlayer_def splice1_def fun_upd_twist)

lemma annRebound_facts:
  "(case rooms round1 ''AB12CD'' of
      None \<Rightarrow> False
    | Some r \<Rightarrow> \<not> canJoin r \<and> findIndex (\<lambda>p. clientId p = ''clientA'') (players r) = Some 0
                \<and> map id_player (players r) = [''sockA'', ''sockB''])
   \<and> (case rooms annRebound ''AB12CD'' of
      None \<Rightarrow> False
    | Some r' \<Rightarrow> map id_player (players r') = [''sockC'', ''sockB'']
                 \<and> emitted annRebound
                     = emitted round1 @ [(ToRoom ''AB12CD'', RoomUpdated r'),
                                         (ToSocket ''sockC'', RoomJoined r' ''sockC'')])"
  by (simp add: annRebound_def joinRoom_def joined_def rebind_def orElse_def upper_ab12cd
      round1_rooms roomAB_def canJoin_def truthy_def ann_def bob_def newPlayer_def
      sid_sockC Let_def)

lemma fullLobby_room:
  "(case rooms fullLobby ''AB12CD'' of
      None \<Rightarrow> False
    | Some r \<Rightarrow> canJoin r \<and> length (players r) = 10
                \<and> findIndex (\<lambda>p. clientId p = ''clientZ'') (players r) = None)"
  by code_simp

section \<open>The claims\<close>

subsection \<open>C1: reference scores of selectAnswer\<close>

text \<open>
  Claim C1. In a quiz room with a 30-second limit, a player who has not answered yet and
  submits the correct answer with 30 seconds remaining (0 elapsed) is awarded 20 round
  points, and with 0 seconds remaining (30 elapsed) 10 round points, each added to the
  score; any other answer, a missing one included, at any reported time, gives 0 round
  points and leaves the score as it was. The handler is a function, so equal inputs give
  equal awards.
\<close>

theorem selectAnswer_reference_scores:
  assumes room: "lookupRoom sock s = Some r"
    and quiz: "status r = Quiz"
    and found: "findIndex (\<lambda>p. id_player p = sid sock) (players r) = Some i"
    and fresh: "\<not> answered (players r ! i)"
    and limit: "questionTime r = 30"
    and inrange: "0 \<le> currentQuestion r" "currentQuestion r < int (length (questions r))"
    and correct: "c = correctAnswer (questions r ! nat (currentQuestion r))"
  shows "(\<exists>s' r'. selectAnswer sock (Some c) (Some 30) s = Returns s' \<and> lookupRoom sock s' = Some r'
            \<and> answerTime (players r' ! i) = Some 0
            \<and> roundPoints (players r' ! i) = 20
            \<and> score (players r' ! i) = score (players r ! i) + 20)
       \<and> (\<exists>s' r'. selectAnswer sock (Some c) (Some 0) s = Returns s' \<and> lookupRoom sock s' = Some r'
            \<and> answerTime (players r' ! i) = Some 30
            \<and> roundPoints (players r' ! i) = 10
            \<and> score (players r' ! i) = score (players r ! i) + 10)
       \<and> (\<forall>answer timeRemaining. answer \<noteq> Some c \<longrightarrow>
            (\<exists>s' r'. selectAnswer sock answer timeRemaining s = Returns s' \<and> lookupRoom sock s' = Some r'
               \<and> roundPoints (players r' ! i) = 0
               \<and> score (players r' ! i) = score (players r ! i)))"
proof -
  have i: "i < length (players r)" using findIndex_Some [OF found] by simp
  have r: "rooms s (roomKey sock s) = Some r" using room by (simp add: lookupRoom_def)
  show ?thesis
    using i r quiz found fresh limit inrange correct
    by (simp add: selectAnswer_def lookupRoom_def Let_def numOr_def totalPoints_def basePoints_def
        timeBonus_div)
qed

text \<open>Ann answers the first question of the sample session.\<close>

theorem selectAnswer_reference_scores_witness:
  "(\<exists>s' r'. selectAnswer sockA (Some 3) (Some 30) round1 = Returns s' \<and> lookupRoom sockA s' = Some r'
       \<and> answerTime (players r' ! 0) = Some 0 \<and> roundPoints (players r' ! 0) = 20
       \<and> score (players r' ! 0) = 20)
   \<and> (\<exists>s' r'. selectAnswer sockA (Some 3) (Some 0) round1 = Returns s' \<and> lookupRoom sockA s' = Some r'
       \<and> answerTime (players r' ! 0) = Some 30 \<and> roundPoints (players r' ! 0) = 10
       \<and> score (players r' ! 0) = 10)
   \<and> (\<exists>s' r'. selectAnswer sockA (Some 1) (Some 30) round1 = Returns s' \<and> lookupRoom sockA s' = Some r'
       \<and> roundPoints (players r' ! 0) = 0 \<and> score (players r' ! 0) = 0)
   \<and> (\<exists>s' r'. selectAnswer sockA None (Some 12) round1 = Returns s' \<and> lookupRoom sockA s' = Some r'
       \<and> roundPoints (players r' ! 0) = 0 \<and> score (players r' ! 0) = 0)"
proof -
  let ?r = "roomAB\<lparr>players := [ann, bob], questions := [q1, q2], questionsReady := True, status := Quiz\<rparr>"
  have room: "lookupRoom sockA round1 = Some ?r"
    by (simp add: lookupRoom_def sockA_key round1_rooms round1_sockets)
  have quiz: "status ?r = Quiz" by simp
  have found: "findIndex (\<lambda>p. id_player p = sid sockA) (players ?r) = Some 0"
    by (simp add: sid_sockA ann_def newPlayer_def)
  have fresh: "\<not> answered (players ?r ! 0)" by (simp add: ann_def newPlayer_def)
  have limit: "questionTime ?r = 30" by (simp add: roomAB_def)
  have lo: "0 \<le> currentQuestion ?r" by (simp add: roomAB_def)
  have hi: "currentQuestion ?r < int (length (questions ?r))" by (simp add: roomAB_def)
  have correct: "3 = correctAnswer (questions ?r ! nat (currentQuestion ?r))"
    by (simp add: roomAB_def q1_def)
  note T = selectAnswer_reference_scores [OF room quiz found fresh limit lo hi correct]
  have sc: "score (players ?r ! 0) = 0" by (simp add: ann_def newPlayer_def)
  from T have a: "\<exists>s' r'. selectAnswer sockA (Some 3) (Some 30) round1 = Returns s' \<and> lookupRoom sockA s' = Some r'
       \<and> answerTime (players r' ! 0) = Some 0 \<and> roundPoints (players r' ! 0) = 20
       \<and> score (players r' ! 0) = 20"
    unfolding sc by simp
  from T have b: "\<exists>s' r'. selectAnswer sockA (Some 3) (Some 0) round1 = Returns s' \<and> lookupRoom sockA s' = Some r'
       \<and> answerTime (players r' ! 0) = Some 30 \<and> roundPoints (players r' ! 0) = 10
       \<and> score (players r' ! 0) = 10"
    unfolding sc by simp
  from T have w: "\<forall>answer timeRemaining. answer \<noteq> Some 3 \<longrightarrow>
            (\<exists>s' r'. selectAnswer sockA answer timeRemaining round1 = Returns s' \<and> lookupRoom sockA s' = Some r'
               \<and> roundPoints (players r' ! 0) = 0 \<and> score (players r' ! 0) = 0)"
    unfolding sc by simp
  from w have c: "\<exists>s' r'. selectAnswer sockA (Some 1) (Some 30) round1 = Returns s' \<and> lookupRoom sockA s' = Some r'
       \<and> roundPoints (players r' ! 0) = 0 \<and> score (players r' ! 0) = 0"
    by simp
  from w have d: "\<exists>s' r'. selectAnswer sockA None (Some 12) round1 = Returns s' \<and> lookupRoom sockA s' = Some r'
       \<and> roundPoints (players r' ! 0) = 0 \<and> score (players r' ! 0) = 0"
    by simp
  from a b c d show ?thesis by blast
qed

subsection \<open>C2: startQuiz needs questionsReady\<close>

text \<open>
  Claim C2. A room whose \<open>questionsReady\<close> flag is false is not changed by any
  \<^verbatim>\<open>startQuiz\<close>, whoever calls it; the caller whose lookup leads to that room gets one
  \<^verbatim>\<open>error\<close> event and nothing else of the state changes.
\<close>

theorem startQuiz_needs_questionsReady:
  assumes "rooms s k = Some r" and "\<not> questionsReady r"
  shows "rooms (startQuiz sock s) k = Some r
       \<and> (roomKey sock s = k \<longrightarrow>
            (\<exists>msg. startQuiz sock s = emit (ToSocket (sid sock)) (Error msg) s))"
proof (cases "roomKey sock s = k")
  case True
  with assms have "startQuiz sock s =
      (if adminId r \<noteq> sid sock then emit (ToSocket (sid sock)) (Error ''Not authorized'') s
       else emit (ToSocket (sid sock)) (Error ''Generate questions first'') s)"
    by (simp add: startQuiz_def lookupRoom_def)
  with True assms show ?thesis by auto
next
  case False
  with assms show ?thesis
    by (simp add: startQuiz_def lookupRoom_def Let_def split: option.splits)
qed

text \<open>In the lobby of two no questions exist yet: the admin and Bob are both refused.\<close>

theorem startQuiz_needs_questionsReady_witness:
  "\<not> questionsReady (the (rooms lobby2 ''AB12CD''))
   \<and> rooms (startQuiz sockA lobby2) ''AB12CD'' = rooms lobby2 ''AB12CD''
   \<and> (\<exists>msg. startQuiz sockA lobby2 = emit (ToSocket (sid sockA)) (Error msg) lobby2)
   \<and> (\<exists>msg. startQuiz sockB lobby2 = emit (ToSocket (sid sockB)) (Error msg) lobby2)"
proof -
  let ?r = "roomAB\<lparr>players := [ann, bob]\<rparr>"
  have room: "rooms lobby2 ''AB12CD'' = Some ?r" by (simp add: lobby2_rooms)
  have nr: "\<not> questionsReady ?r" by (simp add: roomAB_def)
  have ka: "roomKey sockA lobby2 = ''AB12CD''" by (simp add: sockA_key lobby2_sockets)
  have kb: "roomKey sockB lobby2 = ''AB12CD''" by (simp add: sockB_key lobby2_sockets)
  from startQuiz_needs_questionsReady [OF room nr, of sockA] startQuiz_needs_questionsReady [OF room nr, of sockB]
  show ?thesis using room nr ka kb by simp
qed

subsection \<open>C3: updateSettings invalidates the questions\<close>

text \<open>
  Claim C3. When the admin of a room in a lobby-like state calls \<^verbatim>\<open>updateSettings\<close>,
  with any payload, the room afterwards has no questions and \<open>questionsReady\<close> false.
\<close>

theorem updateSettings_invalidates_questions:
  assumes "lookupRoom sock s = Some r" and "adminId r = sid sock" and "inLobby r"
  shows "\<exists>r'. lookupRoom sock (updateSettings sock topic' difficulty' questionCount' questionTime' s) = Some r'
            \<and> questions r' = [] \<and> \<not> questionsReady r'"
  using assms
  by (simp add: updateSettings_def lookupRoom_def Let_def split: option.splits)

text \<open>The admin submits the values the room already has, after generation.\<close>

theorem updateSettings_invalidates_questions_witness:
  "questionsReady (the (lookupRoom sockA ready2)) \<and> questions (the (lookupRoom sockA ready2)) = [q1, q2]
   \<and> topic (the (lookupRoom sockA ready2)) = ''Space'' \<and> questionCount (the (lookupRoom sockA ready2)) = 2
   \<and> (\<exists>r'. lookupRoom sockA (updateSettings sockA (Some ''Space'') (Some ''easy'') (Some 2) (Some 30) ready2) = Some r'
          \<and> questions r' = [] \<and> \<not> questionsReady r')"
proof -
  let ?r = "roomAB\<lparr>players := [ann, bob], questions := [q1, q2], questionsReady := True\<rparr>"
  have room: "lookupRoom sockA ready2 = Some ?r"
    by (simp add: lookupRoom_def sockA_key ready2_rooms ready2_sockets)
  have admin: "adminId ?r = sid sockA" by (simp add: roomAB_def sid_sockA)
  have lobby: "inLobby ?r" by (simp add: inLobby_def roomAB_def)
  from updateSettings_invalidates_questions [OF room admin lobby, of "Some ''Space''" "Some ''easy''" "Some 2" "Some 30"]
  show ?thesis using room by (simp add: roomAB_def)
qed

subsection \<open>C4: admin succession\<close>

text \<open>
  Claim C4. When the admin of a room of at least two players is removed, by
  \<^verbatim>\<open>leaveRoom\<close> or by \<^verbatim>\<open>disconnect\<close>, the room stays in the store without that
  player and its \<open>adminId\<close> is the connection id of the first remaining player.
\<close>

theorem admin_succession:
  assumes "socketRoomMap s (sid sock) = Some roomCode" and "roomCode \<noteq> []"
    and "rooms s roomCode = Some r"
    and "findIndex (\<lambda>p. id_player p = sid sock) (players r) = Some idx"
    and "adminId r = sid sock"
    and "length (players r) \<ge> 2"
  shows "(\<exists>r'. rooms (leaveRoom sock s) roomCode = Some r'
            \<and> players r' = splice1 idx (players r) \<and> players r' \<noteq> []
            \<and> adminId r' = id_player (players r' ! 0))
       \<and> (\<exists>r'. rooms (disconnect sock s) roomCode = Some r'
            \<and> players r' = splice1 idx (players r) \<and> players r' \<noteq> []
            \<and> adminId r' = id_player (players r' ! 0))"
proof -
  from assms(4) have idx: "idx < length (players r)" "id_player (players r ! idx) = sid sock"
    using findIndex_Some by fastforce+
  with assms(6) have len: "length (splice1 idx (players r)) \<noteq> 0"
    by (simp add: splice1_length)
  then have ne: "splice1 idx (players r) \<noteq> []" by auto
  show ?thesis
    using assms(1-5) idx len ne
    by (simp add: leaveRoom_def disconnect_def removePlayer_def truthy_def Let_def)
qed

text \<open>Ann leaves the lobby of two: Bob is the admin.\<close>

theorem admin_succession_witness:
  "adminId (the (rooms lobby2 ''AB12CD'')) = sid sockA
   \<and> (\<exists>r'. rooms (leaveRoom sockA lobby2) ''AB12CD'' = Some r' \<and> players r' = [bob] \<and> adminId r' = ''sockB'')
   \<and> (\<exists>r'. rooms (disconnect sockA lobby2) ''AB12CD'' = Some r' \<and> players r' = [bob] \<and> adminId r' = ''sockB'')"
proof -
  let ?r = "roomAB\<lparr>players := [ann, bob]\<rparr>"
  have m: "socketRoomMap lobby2 (sid sockA) = Some ''AB12CD''" by (simp add: lobby2_sockets sid_sockA)
  have ne: "''AB12CD'' \<noteq> []" by simp
  have room: "rooms lobby2 ''AB12CD'' = Some ?r" by (simp add: lobby2_rooms)
  have found: "findIndex (\<lambda>p. id_player p = sid sockA) (players ?r) = Some 0"
    by (simp add: sid_sockA ann_def newPlayer_def)
  have admin: "adminId ?r = sid sockA" by (simp add: roomAB_def sid_sockA)
  have two: "length (players ?r) \<ge> 2" by simp
  have sp: "splice1 0 (players ?r) = [bob]" by (simp add: splice1_def)
  from admin_succession [OF m ne room found admin two]
  show ?thesis using room admin unfolding sp by (auto simp: bob_def newPlayer_def)
qed

subsection \<open>C5: an empty room is destroyed\<close>

text \<open>
  Claim C5. When \<^verbatim>\<open>leaveRoom\<close> or \<^verbatim>\<open>disconnect\<close> removes the last player of a room,
  the room is no longer in \<open>rooms\<close> and \<open>questionTimers\<close> has no entry for its code.
\<close>

theorem empty_room_is_destroyed:
  assumes "socketRoomMap s (sid sock) = Some roomCode" and "roomCode \<noteq> []"
    and "rooms s roomCode = Some r"
    and "findIndex (\<lambda>p. id_player p = sid sock) (players r) = Some idx"
    and "splice1 idx (players r) = []"
  shows "rooms (leaveRoom sock s) roomCode = None \<and> questionTimers (leaveRoom sock s) roomCode = None
       \<and> rooms (disconnect sock s) roomCode = None \<and> questionTimers (disconnect sock s) roomCode = None"
  using assms
  by (simp add: leaveRoom_def disconnect_def removePlayer_def truthy_def Let_def)

text \<open>Ann leaves the room she has just created.\<close>

theorem empty_room_is_destroyed_witness:
  "rooms lobby1 ''AB12CD'' \<noteq> None
   \<and> rooms (leaveRoom sockA lobby1) ''AB12CD'' = None \<and> questionTimers (leaveRoom sockA lobby1) ''AB12CD'' = None
   \<and> rooms (disconnect sockA lobby1) ''AB12CD'' = None \<and> questionTimers (disconnect sockA lobby1) ''AB12CD'' = None"
proof -
  have m: "socketRoomMap lobby1 (sid sockA) = Some ''AB12CD''" by (simp add: lobby1_sockets sid_sockA)
  have ne: "''AB12CD'' \<noteq> []" by simp
  have room: "rooms lobby1 ''AB12CD'' = Some roomAB" by (simp add: lobby1_rooms)
  have found: "findIndex (\<lambda>p. id_player p = sid sockA) (players roomAB) = Some 0"
    by (simp add: sid_sockA ann_def newPlayer_def roomAB_def)
  have sp: "splice1 0 (players roomAB) = []" by (simp add: splice1_def roomAB_def)
  from empty_room_is_destroyed [OF m ne room found sp]
  show ?thesis using room by simp
qed

subsection \<open>C6: one player per clientId\<close>

text \<open>
  Claim C6 says that \<^verbatim>\<open>joinRoom\<close> with the \<open>clientId\<close> of a player of the room rebinds
  that player. In a waiting room the handler appends instead: after a second connection
  joins Ann's lobby with Ann's \<open>clientId\<close>, the room holds two players with it.
\<close>

theorem joinRoom_duplicates_clientId:
  "map clientId (players (the (rooms lobby1 ''AB12CD''))) = [''clientA'']
   \<and> uniqueClientIds (the (rooms lobby1 ''AB12CD''))
   \<and> map clientId (players (the (rooms twinJoin ''AB12CD''))) = [''clientA'', ''clientA'']
   \<and> map id_player (players (the (rooms twinJoin ''AB12CD''))) = [''sockA'', ''sockB'']
   \<and> \<not> uniqueClientIds (the (rooms twinJoin ''AB12CD''))"
  by (simp add: twinJoin_def joinRoom_def joined_def lobby1_rooms upper_ab12cd Let_def roomAB_def
      canJoin_def sid_sockB orElse_def uniqueClientIds_def ann_def newPlayer_def)

subsection \<open>C7: bounds on currentQuestion and the question list\<close>




subsection \<open>C8: rejoinRoom after a disconnect\<close>

text \<open>
  Claim C8, amended. \<^verbatim>\<open>disconnect\<close> removes the caller's player from a room that keeps
  other players. A later \<^verbatim>\<open>rejoinRoom\<close> with that player's \<open>clientId\<close>, which no
  remaining player has, is answered with the error \<open>Game already in progress\<close> when the room
  is not lobby-like, and appends a fresh player when it is. \<^verbatim>\<open>rejoinRoom\<close> rebinds the
  connection id of the first player with the \<open>clientId\<close>, in every room status, when such a
  player is still in the room.
\<close>

theorem rejoin_after_disconnect:
  assumes "socketRoomMap s (sid sock) = Some rc" and "rc \<noteq> []" and "toUpperCase rc = rc"
    and "rooms s rc = Some r"
    and "findIndex (\<lambda>p. id_player p = sid sock) (players r) = Some idx"
    and "splice1 idx (players r) \<noteq> []"
    and "cid = clientId (players r ! idx)" and "cid \<noteq> []"
    and "findIndex (\<lambda>p. clientId p = cid) (splice1 idx (players r)) = None"
  shows "(\<exists>r1. rooms (disconnect sock s) rc = Some r1 \<and> players r1 = splice1 idx (players r)
            \<and> status r1 = status r \<and> rematch r1 = rematch r)
       \<and> (\<not> canJoin r \<longrightarrow>
            rejoinRoom sock' (Some rc) (Some cid) playerName (disconnect sock s)
              = emit (ToSocket (sid sock')) (Error ''Game already in progress'') (disconnect sock s))
       \<and> (canJoin r \<longrightarrow>
            (\<exists>r2. rooms (rejoinRoom sock' (Some rc) (Some cid) playerName (disconnect sock s)) rc = Some r2
               \<and> players r2 = splice1 idx (players r) @ [newPlayer (sid sock') cid playerName]))
       \<and> (\<forall>s0 r0 j. rooms s0 rc = Some r0 \<and> findIndex (\<lambda>p. clientId p = cid) (players r0) = Some j \<longrightarrow>
            (\<exists>r2. rooms (rejoinRoom sock' (Some rc) (Some cid) playerName s0) rc = Some r2
               \<and> players r2 = (players r0)[j := (players r0 ! j)\<lparr>id_player := sid sock'\<rparr>]
               \<and> status r2 = status r0))"
proof -
  define r1 where "r1 = (if adminId r = sid sock
                          then r\<lparr>players := splice1 idx (players r),
                                 adminId := id_player (splice1 idx (players r) ! 0)\<rparr>
                          else r\<lparr>players := splice1 idx (players r)\<rparr>)"
  have len: "length (splice1 idx (players r)) \<noteq> 0" using assms(6) by simp
  have d: "rooms (disconnect sock s) rc = Some r1"
    using assms(1-5) len
    by (simp add: disconnect_def removePlayer_def truthy_def Let_def r1_def)
  have r1: "players r1 = splice1 idx (players r)" "status r1 = status r" "rematch r1 = rematch r"
    by (simp_all add: r1_def)
  then have cj: "canJoin r1 = canJoin r" by (simp add: canJoin_def)
  have key: "toUpperCase (orElse (Some rc) []) = rc" using assms(2,3) by (simp add: orElse_def)
  have tr: "truthy (Some cid)" using assms(8) by (simp add: truthy_def)
  have a: "\<exists>r1. rooms (disconnect sock s) rc = Some r1 \<and> players r1 = splice1 idx (players r)
            \<and> status r1 = status r \<and> rematch r1 = rematch r"
    using d r1 by simp
  have b: "\<not> canJoin r \<longrightarrow>
            rejoinRoom sock' (Some rc) (Some cid) playerName (disconnect sock s)
              = emit (ToSocket (sid sock')) (Error ''Game already in progress'') (disconnect sock s)"
    using d r1 cj key tr assms(2,9) by (simp add: rejoinRoom_def Let_def)
  have c: "canJoin r \<longrightarrow>
            (\<exists>r2. rooms (rejoinRoom sock' (Some rc) (Some cid) playerName (disconnect sock s)) rc = Some r2
               \<and> players r2 = splice1 idx (players r) @ [newPlayer (sid sock') cid playerName])"
    using d r1 cj key tr assms(2,9) by (simp add: rejoinRoom_def Let_def)
  have e: "\<forall>s0 r0 j. rooms s0 rc = Some r0 \<and> findIndex (\<lambda>p. clientId p = cid) (players r0) = Some j \<longrightarrow>
            (\<exists>r2. rooms (rejoinRoom sock' (Some rc) (Some cid) playerName s0) rc = Some r2
               \<and> players r2 = (players r0)[j := (players r0 ! j)\<lparr>id_player := sid sock'\<rparr>]
               \<and> status r2 = status r0)"
    using key tr assms(2) by (simp add: rejoinRoom_def Let_def rebind_def)
  from a b c e show ?thesis by blast
qed

text \<open>
  Bob's connection drops during the first round and he rejoins with his \<open>clientId\<close> on a
  new connection: he is refused, and the room has Ann alone.
\<close>

theorem rejoin_after_disconnect_counterexample:
  "status (the (rooms round1 ''AB12CD'')) = Quiz
   \<and> map clientId (players (the (rooms round1 ''AB12CD''))) = [''clientA'', ''clientB'']
   \<and> map id_player (players (the (rooms round1 ''AB12CD''))) = [''sockA'', ''sockB'']
   \<and> map clientId (players (the (rooms bobDropped ''AB12CD''))) = [''clientA'']
   \<and> bobReturns = emit (ToSocket ''sockC'') (Error ''Game already in progress'') bobDropped
   \<and> map id_player (players (the (rooms bobReturns ''AB12CD''))) = [''sockA'']"
proof -
  have e: "bobReturns = emit (ToSocket ''sockC'') (Error ''Game already in progress'') bobDropped"
    by (simp add: bobReturns_def rejoinRoom_def Let_def bobDropped_rooms upper_AB12CD orElse_def
        truthy_def roomAB_def canJoin_def ann_def newPlayer_def sid_sockC)
  show ?thesis
    unfolding e
    by (simp add: round1_rooms bobDropped_rooms roomAB_def ann_def bob_def newPlayer_def)
qed

text \<open>Bob drops and returns during a round, in the lobby, and rejoins without having dropped.\<close>

theorem rejoin_after_disconnect_witness:
  "rejoinRoom sockC (Some ''AB12CD'') (Some ''clientB'') (Some ''Bob'') (disconnect sockB round1)
     = emit (ToSocket (sid sockC)) (Error ''Game already in progress'') (disconnect sockB round1)
   \<and> (\<exists>r2. rooms (rejoinRoom sockC (Some ''AB12CD'') (Some ''clientB'') (Some ''Bob'') (disconnect sockB lobby2)) ''AB12CD''
            = Some r2
          \<and> players r2 = [ann, newPlayer (sid sockC) ''clientB'' (Some ''Bob'')])
   \<and> (\<exists>r2. rooms (rejoinRoom sockC (Some ''AB12CD'') (Some ''clientB'') (Some ''Bob'') round1) ''AB12CD'' = Some r2
          \<and> players r2 = [ann, bob\<lparr>id_player := sid sockC\<rparr>] \<and> status r2 = Quiz)"
proof -
  let ?q = "roomAB\<lparr>players := [ann, bob], questions := [q1, q2], questionsReady := True, status := Quiz\<rparr>"
  let ?l = "roomAB\<lparr>players := [ann, bob]\<rparr>"
  have ne: "''AB12CD'' \<noteq> []" by simp
  have cb: "''clientB'' \<noteq> []" by simp
  have mq: "socketRoomMap round1 (sid sockB) = Some ''AB12CD''" by (simp add: round1_sockets sid_sockB)
  have ml: "socketRoomMap lobby2 (sid sockB) = Some ''AB12CD''" by (simp add: lobby2_sockets sid_sockB)
  have rq: "rooms round1 ''AB12CD'' = Some ?q" by (simp add: round1_rooms)
  have rl: "rooms lobby2 ''AB12CD'' = Some ?l" by (simp add: lobby2_rooms)
  have fq: "findIndex (\<lambda>p. id_player p = sid sockB) (players ?q) = Some 1"
    by (simp add: sid_sockB ann_def bob_def newPlayer_def)
  have fl: "findIndex (\<lambda>p. id_player p = sid sockB) (players ?l) = Some 1"
    by (simp add: sid_sockB ann_def bob_def newPlayer_def)
  have sq: "splice1 1 (players ?q) = [ann]" by (simp add: splice1_def)
  have sl: "splice1 1 (players ?l) = [ann]" by (simp add: splice1_def)
  have nq: "splice1 1 (players ?q) \<noteq> []" unfolding sq by simp
  have nl: "splice1 1 (players ?l) \<noteq> []" unfolding sl by simp
  have cq: "''clientB'' = clientId (players ?q ! 1)" by (simp add: bob_def newPlayer_def)
  have cl: "''clientB'' = clientId (players ?l ! 1)" by (simp add: bob_def newPlayer_def)
  have gq: "findIndex (\<lambda>p. clientId p = ''clientB'') (splice1 1 (players ?q)) = None"
    unfolding sq by (simp add: ann_def newPlayer_def)
  have gl: "findIndex (\<lambda>p. clientId p = ''clientB'') (splice1 1 (players ?l)) = None"
    unfolding sl by (simp add: ann_def newPlayer_def)
  note Q = rejoin_after_disconnect [OF mq ne upper_AB12CD rq fq nq cq cb gq, of sockC "Some ''Bob''"]
  note L = rejoin_after_disconnect [OF ml ne upper_AB12CD rl fl nl cl cb gl, of sockC "Some ''Bob''"]
  have njq: "\<not> canJoin ?q" by (simp add: canJoin_def)
  have jl: "canJoin ?l" by (simp add: canJoin_def roomAB_def)
  from Q njq have a: "rejoinRoom sockC (Some ''AB12CD'') (Some ''clientB'') (Some ''Bob'') (disconnect sockB round1)
     = emit (ToSocket (sid sockC)) (Error ''Game already in progress'') (disconnect sockB round1)"
    by blast
  from L jl have b: "\<exists>r2. rooms (rejoinRoom sockC (Some ''AB12CD'') (Some ''clientB'') (Some ''Bob'') (disconnect sockB lobby2)) ''AB12CD''
            = Some r2
          \<and> players r2 = [ann, newPlayer (sid sockC) ''clientB'' (Some ''Bob'')]"
    unfolding sl by simp
  have fc: "findIndex (\<lambda>p. clientId p = ''clientB'') (players ?q) = Some 1"
    by (simp add: ann_def bob_def newPlayer_def)
  from Q have "\<forall>s0 r0 j. rooms s0 ''AB12CD'' = Some r0 \<and> findIndex (\<lambda>p. clientId p = ''clientB'') (players r0) = Some j \<longrightarrow>
            (\<exists>r2. rooms (rejoinRoom sockC (Some ''AB12CD'') (Some ''clientB'') (Some ''Bob'') s0) ''AB12CD'' = Some r2
               \<and> players r2 = (players r0)[j := (players r0 ! j)\<lparr>id_player := sid sockC\<rparr>]
               \<and> status r2 = status r0)"
    by blast
  from this [rule_format, of round1 ?q 1] rq fc
  have c: "\<exists>r2. rooms (rejoinRoom sockC (Some ''AB12CD'') (Some ''clientB'') (Some ''Bob'') round1) ''AB12CD'' = Some r2
          \<and> players r2 = [ann, bob\<lparr>id_player := sid sockC\<rparr>] \<and> status r2 = Quiz"
    by simp
  from a b c show ?thesis by blast
qed

subsection \<open>C9: rejected events\<close>

text \<open>
  Claim C9, amended. An event that fails a guard of its handler leaves \<open>rooms\<close> as it was
  and broadcasts nothing. \<^verbatim>\<open>joinRoom\<close>, \<^verbatim>\<open>rejoinRoom\<close> and \<^verbatim>\<open>startQuiz\<close> then send
  one \<^verbatim>\<open>error\<close> event to the caller and change nothing else; \<^verbatim>\<open>updateSettings\<close>,
  \<^verbatim>\<open>generateQuestions\<close>, \<^verbatim>\<open>selectAnswer\<close>, \<^verbatim>\<open>nextQuestion\<close> and \<^verbatim>\<open>playAgain\<close>
  return without any event: the state is the one before. \<^verbatim>\<open>joinRoom\<close> on a room that is
  not lobby-like fails its guard only when the payload has no \<open>clientId\<close> or one that no
  player of the room has; with the \<open>clientId\<close> of a player it is accepted: the first such
  player gets the caller's connection id, no other field of the room changes, and
  \<^verbatim>\<open>roomUpdated\<close> is broadcast to the room before \<^verbatim>\<open>roomJoined\<close> is sent to the caller.
\<close>

theorem rejected_actions_change_nothing:
  "(rejected a s \<longrightarrow>
      rooms (perform a s) = rooms s
      \<and> (reportsErrors a \<longrightarrow> (\<exists>msg. perform a s = emit (ToSocket (caller a)) (Error msg) s))
      \<and> (\<not> reportsErrors a \<longrightarrow> perform a s = s))
   \<and> (rooms s (toUpperCase (orElse roomCode [])) = Some r \<and> \<not> canJoin r \<and> truthy cid
        \<and> findIndex (\<lambda>p. clientId p = the cid) (players r) = Some i \<longrightarrow>
      \<not> rejected (JoinRoom sock roomCode playerName cid now) s
      \<and> (\<exists>r'. r' = r\<lparr>players := (players r)[i := (players r ! i)\<lparr>id_player := sid sock\<rparr>]\<rparr>
            \<and> rooms (perform (JoinRoom sock roomCode playerName cid now) s)
                 = (rooms s)(toUpperCase (orElse roomCode []) \<mapsto> r')
            \<and> emitted (perform (JoinRoom sock roomCode playerName cid now) s)
                 = emitted s @ [(ToRoom (toUpperCase (orElse roomCode [])), RoomUpdated r'),
                                (ToSocket (sid sock), RoomJoined r' (sid sock))]))"
proof (rule conjI)
  show "rejected a s \<longrightarrow>
      rooms (perform a s) = rooms s
      \<and> (reportsErrors a \<longrightarrow> (\<exists>msg. perform a s = emit (ToSocket (caller a)) (Error msg) s))
      \<and> (\<not> reportsErrors a \<longrightarrow> perform a s = s)"
  proof
    assume assms: "rejected a s"
    show "rooms (perform a s) = rooms s
      \<and> (reportsErrors a \<longrightarrow> (\<exists>msg. perform a s = emit (ToSocket (caller a)) (Error msg) s))
      \<and> (\<not> reportsErrors a \<longrightarrow> perform a s = s)"
    proof (cases a)
      case (JoinRoom sock roomCode playerName clientId' now)
      with assms have "\<exists>msg. joinRoom sock roomCode playerName clientId' now s
                          = emit (ToSocket (sid sock)) (Error msg) s"
        by (auto simp: joinRoom_def Let_def split: option.splits)
      with JoinRoom show ?thesis by auto
    next
      case (RejoinRoom sock roomCode clientId' playerName)
      with assms have "\<exists>msg. rejoinRoom sock roomCode clientId' playerName s
                          = emit (ToSocket (sid sock)) (Error msg) s"
        by (auto simp: rejoinRoom_def Let_def split: option.splits)
      with RejoinRoom show ?thesis by auto
    next
      case (StartQuiz sock)
      with assms have "\<exists>msg. startQuiz sock s = emit (ToSocket (sid sock)) (Error msg) s"
        by (auto simp: startQuiz_def Let_def split: option.splits)
      with StartQuiz show ?thesis by auto
    next
      case (UpdateSettings sock topic' difficulty' questionCount' questionTime')
      with assms have "updateSettings sock topic' difficulty' questionCount' questionTime' s = s"
        by (auto simp: updateSettings_def split: option.splits)
      with UpdateSettings show ?thesis by simp
    next
      case (GenerateQuestions sock)
      with assms have "generateQuestions sock s = s"
        by (auto simp: generateQuestions_def split: option.splits)
      with GenerateQuestions show ?thesis by simp
    next
      case (SelectAnswer sock answer timeRemaining)
      with assms have "selectAnswer sock answer timeRemaining s = Returns s"
        by (auto simp: selectAnswer_def split: option.splits)
      with SelectAnswer show ?thesis by simp
    next
      case (NextQuestion sock)
      with assms have "nextQuestion sock s = s"
        by (auto simp: nextQuestion_def split: option.splits)
      with NextQuestion show ?thesis by simp
    next
      case (PlayAgain sock)
      with assms have "playAgain sock s = s"
        by (auto simp: playAgain_def split: option.splits)
      with PlayAgain show ?thesis by simp
    qed (use assms in simp_all)
  qed
next
  show "rooms s (toUpperCase (orElse roomCode [])) = Some r \<and> \<not> canJoin r \<and> truthy cid
        \<and> findIndex (\<lambda>p. clientId p = the cid) (players r) = Some i \<longrightarrow>
      \<not> rejected (JoinRoom sock roomCode playerName cid now) s
      \<and> (\<exists>r'. r' = r\<lparr>players := (players r)[i := (players r ! i)\<lparr>id_player := sid sock\<rparr>]\<rparr>
            \<and> rooms (perform (JoinRoom sock roomCode playerName cid now) s)
                 = (rooms s)(toUpperCase (orElse roomCode []) \<mapsto> r')
            \<and> emitted (perform (JoinRoom sock roomCode playerName cid now) s)
                 = emitted s @ [(ToRoom (toUpperCase (orElse roomCode [])), RoomUpdated r'),
                                (ToSocket (sid sock), RoomJoined r' (sid sock))])"
    by (simp add: joinRoom_def joined_def rebind_def Let_def)
qed

text \<open>
  No error is reported to Bob, who is not the admin, for \<^verbatim>\<open>nextQuestion\<close>, nor to Ann for
  \<^verbatim>\<open>updateSettings\<close> during a round: nothing is emitted at all. And \<^verbatim>\<open>joinRoom\<close> on
  the room during the round, from a third connection with Ann's \<open>clientId\<close>, changes the
  room and broadcasts: Ann's player is bound to the new connection.
\<close>

theorem silent_rejection_counterexample:
  "adminId (the (rooms round1 ''AB12CD'')) = ''sockA'' \<and> status (the (rooms round1 ''AB12CD'')) = Quiz
   \<and> nextQuestion sockB round1 = round1
   \<and> emitted (nextQuestion sockB round1) = emitted round1
   \<and> updateSettings sockA (Some ''History'') None None None round1 = round1
   \<and> emitted (updateSettings sockA (Some ''History'') None None None round1) = emitted round1
   \<and> rooms round1 ''AB12CD'' \<noteq> None \<and> rooms annRebound ''AB12CD'' \<noteq> None
   \<and> map id_player (players (the (rooms round1 ''AB12CD''))) = [''sockA'', ''sockB'']
   \<and> map id_player (players (the (rooms annRebound ''AB12CD''))) = [''sockC'', ''sockB'']
   \<and> rooms annRebound \<noteq> rooms round1
   \<and> emitted annRebound
        = emitted round1 @ [(ToRoom ''AB12CD'', RoomUpdated (the (rooms annRebound ''AB12CD''))),
                            (ToSocket ''sockC'', RoomJoined (the (rooms annRebound ''AB12CD'')) ''sockC'')]"
proof -
  have n: "nextQuestion sockB round1 = round1"
    by (simp add: nextQuestion_def lookupRoom_def sockB_key round1_rooms round1_sockets roomAB_def sid_sockB)
  have u: "updateSettings sockA (Some ''History'') None None None round1 = round1"
    by (simp add: updateSettings_def lookupRoom_def sockA_key round1_rooms round1_sockets roomAB_def
        sid_sockA inLobby_def)
  from annRebound_facts obtain r r' where r: "rooms round1 ''AB12CD'' = Some r"
      "map id_player (players r) = [''sockA'', ''sockB'']"
    and r': "rooms annRebound ''AB12CD'' = Some r'"
      "map id_player (players r') = [''sockC'', ''sockB'']"
      "emitted annRebound = emitted round1 @ [(ToRoom ''AB12CD'', RoomUpdated r'),
                                              (ToSocket ''sockC'', RoomJoined r' ''sockC'')]"
    by (auto split: option.splits)
  have d: "rooms annRebound \<noteq> rooms round1"
  proof
    assume "rooms annRebound = rooms round1"
    then have "rooms annRebound ''AB12CD'' = rooms round1 ''AB12CD''" by simp
    with r r' show False by simp
  qed
  have a: "adminId (the (rooms round1 ''AB12CD'')) = ''sockA'' \<and> status (the (rooms round1 ''AB12CD'')) = Quiz"
    by (simp add: round1_rooms roomAB_def)
  from a d r r' show ?thesis unfolding n u by simp
qed

text \<open>Three refused events during the first round, and the accepted \<^verbatim>\<open>joinRoom\<close>.\<close>

theorem rejected_actions_change_nothing_witness:
  "rejected (NextQuestion sockB) round1 \<and> perform (NextQuestion sockB) round1 = round1
   \<and> rejected (UpdateSettings sockA (Some ''History'') None None None) round1
   \<and> perform (UpdateSettings sockA (Some ''History'') None None None) round1 = round1
   \<and> rejected (JoinRoom sockC (Some ''ab12cd'') (Some ''Cy'') (Some ''clientC'') ''1700000000005'') round1
   \<and> rooms (perform (JoinRoom sockC (Some ''ab12cd'') (Some ''Cy'') (Some ''clientC'') ''1700000000005'') round1)
       = rooms round1
   \<and> (\<exists>msg. perform (JoinRoom sockC (Some ''ab12cd'') (Some ''Cy'') (Some ''clientC'') ''1700000000005'') round1
         = emit (ToSocket ''sockC'') (Error msg) round1)
   \<and> \<not> rejected (JoinRoom sockC (Some ''ab12cd'') (Some ''Ann'') (Some ''clientA'') ''1700000000004'') round1
   \<and> (\<exists>r r'. rooms round1 ''AB12CD'' = Some r \<and> \<not> canJoin r
         \<and> findIndex (\<lambda>p. clientId p = ''clientA'') (players r) = Some 0
         \<and> r' = r\<lparr>players := (players r)[0 := (players r ! 0)\<lparr>id_player := ''sockC''\<rparr>]\<rparr>
         \<and> rooms annRebound = (rooms round1)(''AB12CD'' \<mapsto> r')
         \<and> emitted annRebound = emitted round1 @ [(ToRoom ''AB12CD'', RoomUpdated r'),
                                                   (ToSocket ''sockC'', RoomJoined r' ''sockC'')])"
proof -
  have a: "rejected (NextQuestion sockB) round1"
    by (simp add: lookupRoom_def sockB_key round1_rooms round1_sockets roomAB_def sid_sockB)
  have b: "rejected (UpdateSettings sockA (Some ''History'') None None None) round1"
    by (simp add: lookupRoom_def sockA_key round1_rooms round1_sockets roomAB_def inLobby_def)
  have c: "rejected (JoinRoom sockC (Some ''ab12cd'') (Some ''Cy'') (Some ''clientC'') ''1700000000005'') round1"
    by (simp add: orElse_def upper_ab12cd round1_rooms roomAB_def canJoin_def truthy_def
        ann_def bob_def newPlayer_def)
  from annRebound_facts obtain r where r: "rooms round1 ''AB12CD'' = Some r" "\<not> canJoin r"
      "findIndex (\<lambda>p. clientId p = ''clientA'') (players r) = Some 0"
    by (auto split: option.splits)
  have k: "toUpperCase (orElse (Some ''ab12cd'') []) = ''AB12CD''"
    by (simp add: orElse_def upper_ab12cd)
  have d: "rooms round1 (toUpperCase (orElse (Some ''ab12cd'') [])) = Some r \<and> \<not> canJoin r
           \<and> truthy (Some ''clientA'')
           \<and> findIndex (\<lambda>p. clientId p = the (Some ''clientA'')) (players r) = Some 0"
    using r by (simp add: k truthy_def)
  from rejected_actions_change_nothing [of "NextQuestion sockB" round1] a
  have a': "perform (NextQuestion sockB) round1 = round1" by simp
  from rejected_actions_change_nothing [of "UpdateSettings sockA (Some ''History'') None None None" round1] b
  have b': "perform (UpdateSettings sockA (Some ''History'') None None None) round1 = round1" by simp
  from rejected_actions_change_nothing
    [of "JoinRoom sockC (Some ''ab12cd'') (Some ''Cy'') (Some ''clientC'') ''1700000000005''" round1] c
  have c': "rooms (perform (JoinRoom sockC (Some ''ab12cd'') (Some ''Cy'') (Some ''clientC'') ''1700000000005'') round1)
              = rooms round1
          \<and> (\<exists>msg. perform (JoinRoom sockC (Some ''ab12cd'') (Some ''Cy'') (Some ''clientC'') ''1700000000005'') round1
                = emit (ToSocket ''sockC'') (Error msg) round1)"
    by (simp add: sid_sockC)
  from rejected_actions_change_nothing
    [where s = round1 and roomCode = "Some ''ab12cd''" and r = r and cid = "Some ''clientA''"
       and i = 0 and sock = sockC and playerName = "Some ''Ann''" and now = "''1700000000004''"] d
  have d': "\<not> rejected (JoinRoom sockC (Some ''ab12cd'') (Some ''Ann'') (Some ''clientA'') ''1700000000004'') round1
     \<and> rooms annRebound = (rooms round1)(''AB12CD'' \<mapsto> r\<lparr>players := (players r)[0 := (players r ! 0)\<lparr>id_player := ''sockC''\<rparr>]\<rparr>)
     \<and> emitted annRebound = emitted round1 @
         [(ToRoom ''AB12CD'', RoomUpdated (r\<lparr>players := (players r)[0 := (players r ! 0)\<lparr>id_player := ''sockC''\<rparr>]\<rparr>)),
          (ToSocket ''sockC'', RoomJoined (r\<lparr>players := (players r)[0 := (players r ! 0)\<lparr>id_player := ''sockC''\<rparr>]\<rparr>) ''sockC'')]"
    unfolding annRebound_def k by (simp add: sid_sockC del: perform.simps rejected.simps)
  from a b c a' b' c' d' r show ?thesis by simp
qed

subsection \<open>C10: rejoinRoom has no player cap\<close>

text \<open>
  Claim C10. In a lobby-like room of ten players, \<^verbatim>\<open>rejoinRoom\<close> with a \<open>clientId\<close> that
  no player has appends an eleventh player, while \<^verbatim>\<open>joinRoom\<close> with the same payload is
  answered with the error \<open>Room is full\<close>.
\<close>

theorem rejoinRoom_ignores_player_cap:
  assumes "toUpperCase (orElse roomCode []) = rc" and "rc \<noteq> []" and "truthy clientId'"
    and "rooms s rc = Some r" and "canJoin r" and "length (players r) = 10"
    and "findIndex (\<lambda>p. clientId p = the clientId') (players r) = None"
  shows "(\<exists>r'. rooms (rejoinRoom sock roomCode clientId' playerName s) rc = Some r'
            \<and> players r' = players r @ [newPlayer (sid sock) (the clientId') playerName]
            \<and> length (players r') = 11)
       \<and> joinRoom sock roomCode playerName clientId' now s
           = emit (ToSocket (sid sock)) (Error ''Room is full'') s"
  using assms
  by (simp add: rejoinRoom_def joinRoom_def joined_def Let_def)

text \<open>A newcomer at the full lobby of the sample session.\<close>

theorem rejoinRoom_ignores_player_cap_witness:
  "length (players (the (rooms fullLobby ''AB12CD''))) = 10
   \<and> (\<exists>r'. rooms (rejoinRoom sockC (Some ''ab12cd'') (Some ''clientZ'') None fullLobby) ''AB12CD'' = Some r'
          \<and> length (players r') = 11)
   \<and> joinRoom sockC (Some ''ab12cd'') None (Some ''clientZ'') ''1700000000003'' fullLobby
       = emit (ToSocket (sid sockC)) (Error ''Room is full'') fullLobby"
proof -
  from fullLobby_room obtain r where r: "rooms fullLobby ''AB12CD'' = Some r"
    and j: "canJoin r" and l: "length (players r) = 10"
    and f: "findIndex (\<lambda>p. clientId p = the (Some ''clientZ'')) (players r) = None"
    by (auto split: option.splits)
  have k: "toUpperCase (orElse (Some ''ab12cd'') []) = ''AB12CD''"
    by (simp add: orElse_def upper_ab12cd)
  have ne: "''AB12CD'' \<noteq> []" by simp
  have t: "truthy (Some ''clientZ'')" by (simp add: truthy_def)
  from rejoinRoom_ignores_player_cap [OF k ne t r j l f, of sockC None "''1700000000003''"]
  show ?thesis using r l by auto
qed

section \<open>Further properties of the handlers\<close>

subsection \<open>X1: the store\<close>

text \<open>
  X1. In every reachable state a stored room is stored under its own code and has at least
  one player, and a code with no room has no timer entry: the timeout callback always
  finds its room.
\<close>

theorem reachable_store_invariant:
  assumes "reachable s"
  shows "(\<forall>k r. rooms s k = Some r \<longrightarrow> code r = k \<and> players r \<noteq> [])
       \<and> (\<forall>k. rooms s k = None \<longrightarrow> questionTimers s k = None)"
  using reachable_storeOK [OF assms] by (simp add: storeOK_def)

text \<open>The first round of the sample session.\<close>

theorem reachable_store_invariant_witness:
  "reachable round1 \<and> code (the (rooms round1 ''AB12CD'')) = ''AB12CD''
   \<and> players (the (rooms round1 ''AB12CD'')) \<noteq> []
   \<and> rooms round1 ''ZZ99ZZ'' = None \<and> questionTimers round1 ''ZZ99ZZ'' = None"
proof -
  have a: "rooms round1 ''AB12CD'' = Some (the (rooms round1 ''AB12CD''))" by (simp add: round1_rooms)
  have b: "rooms round1 ''ZZ99ZZ'' = None" by (simp add: round1_rooms)
  from reachable_store_invariant [OF reachable_round1] a b reachable_round1
  show ?thesis by blast
qed

subsection \<open>X2: rejoining twice\<close>

text \<open>
  X2. \<^verbatim>\<open>rejoinRoom\<close> with the \<open>clientId\<close> of a player of the room rebinds that player's
  connection id and changes no other player; doing it again, from the same or another
  connection, leaves the number of players as it was and only sets the connection id.
\<close>

theorem rejoinRoom_idempotent:
  assumes "toUpperCase (orElse roomCode []) = rc" and "rc \<noteq> []" and "truthy clientId'"
    and "rooms s rc = Some r"
    and "findIndex (\<lambda>p. clientId p = the clientId') (players r) = Some j"
  shows "\<exists>r1 r2. rooms (rejoinRoom sock1 roomCode clientId' playerName s) rc = Some r1
           \<and> players r1 = (players r)[j := (players r ! j)\<lparr>id_player := sid sock1\<rparr>]
           \<and> rooms (rejoinRoom sock2 roomCode clientId' playerName'
                      (rejoinRoom sock1 roomCode clientId' playerName s)) rc = Some r2
           \<and> players r2 = (players r)[j := (players r ! j)\<lparr>id_player := sid sock2\<rparr>]
           \<and> length (players r2) = length (players r)"
proof -
  define r1 where "r1 = rebind j (sid sock1) r"
  define s1 where "s1 = rejoinRoom sock1 roomCode clientId' playerName s"
  have s1: "s1 = joined sock1 rc r1 (sid sock1) s"
    using assms by (simp add: s1_def rejoinRoom_def Let_def r1_def)
  then have room1: "rooms s1 rc = Some r1" by simp
  have j: "j < length (players r)" using findIndex_Some [OF assms(5)] by simp
  have p1: "players r1 = (players r)[j := (players r ! j)\<lparr>id_player := sid sock1\<rparr>]"
    by (simp add: r1_def rebind_def)
  have f1: "findIndex (\<lambda>p. clientId p = the clientId') (players r1) = Some j"
    unfolding p1
    using findIndex_update_same [of "\<lambda>p. clientId p = the clientId'" "\<lambda>p. p\<lparr>id_player := sid sock1\<rparr>" "players r" j]
      assms(5) by simp
  have s2: "rejoinRoom sock2 roomCode clientId' playerName' s1 = joined sock2 rc (rebind j (sid sock2) r1) (sid sock2) s1"
    using assms(1-3) room1 f1 by (simp add: rejoinRoom_def Let_def)
  have p2: "players (rebind j (sid sock2) r1) = (players r)[j := (players r ! j)\<lparr>id_player := sid sock2\<rparr>]"
    using j by (simp add: rebind_def p1)
  show ?thesis
    using room1 p1 p2 s2 unfolding s1_def by simp
qed

text \<open>Bob rejoins twice during the first round.\<close>

theorem rejoinRoom_idempotent_witness:
  "\<exists>r1 r2. rooms (rejoinRoom sockC (Some ''ab12cd'') (Some ''clientB'') None round1) ''AB12CD'' = Some r1
      \<and> players r1 = [ann, bob\<lparr>id_player := ''sockC''\<rparr>]
      \<and> rooms (rejoinRoom sockC (Some ''ab12cd'') (Some ''clientB'') None
                 (rejoinRoom sockC (Some ''ab12cd'') (Some ''clientB'') None round1)) ''AB12CD'' = Some r2
      \<and> players r2 = [ann, bob\<lparr>id_player := ''sockC''\<rparr>]"
proof -
  let ?q = "roomAB\<lparr>players := [ann, bob], questions := [q1, q2], questionsReady := True, status := Quiz\<rparr>"
  have k: "toUpperCase (orElse (Some ''ab12cd'') []) = ''AB12CD''" by (simp add: orElse_def upper_ab12cd)
  have ne: "''AB12CD'' \<noteq> []" by simp
  have t: "truthy (Some ''clientB'')" by (simp add: truthy_def)
  have rq: "rooms round1 ''AB12CD'' = Some ?q" by (simp add: round1_rooms)
  have f: "findIndex (\<lambda>p. clientId p = the (Some ''clientB'')) (players ?q) = Some 1"
    by (simp add: ann_def bob_def newPlayer_def)
  from rejoinRoom_idempotent [OF k ne t rq f, of sockC None sockC None]
  show ?thesis by (auto simp: sid_sockC)
qed

subsection \<open>X3: the timer expires\<close>

text \<open>
  X3. When the pending timer of a room fires, every player is marked answered; a player who
  had not answered gets the answer -1 and 0 round points and keeps the score, the others
  are unchanged; \<^verbatim>\<open>timeUp\<close> and then \<^verbatim>\<open>allAnswered\<close> are broadcast, once: the timer
  cannot fire again.
\<close>

theorem timerFires_auto_submits:
  assumes "questionTimers s rc = Some (Pending d)" and "rooms s rc = Some r"
  shows "\<exists>r'. rooms (timerFires rc s) rc = Some r'
           \<and> players r' = map autoSubmit (players r)
           \<and> list_all (\<lambda>p. answered p) (players r')
           \<and> (\<forall>p \<in> set (players r). \<not> answered p \<longrightarrow>
                 selectedAnswer (autoSubmit p) = Some (- 1) \<and> roundPoints (autoSubmit p) = 0
                 \<and> score (autoSubmit p) = score p)
           \<and> (\<forall>p \<in> set (players r). answered p \<longrightarrow> autoSubmit p = p)
           \<and> emitted (timerFires rc s) = emitted s @ [(ToRoom rc, TimeUp r), (ToRoom rc, AllAnswered r')]
           \<and> timerFires rc (timerFires rc s) = timerFires rc s"
  using assms
  by (simp add: timerFires_def Let_def list_all_autoSubmit autoSubmit_def)

text \<open>Nobody answers the first question of the sample session.\<close>

theorem timerFires_auto_submits_witness:
  "\<exists>r'. rooms (timerFires ''AB12CD'' round1) ''AB12CD'' = Some r'
      \<and> map selectedAnswer (players r') = [Some (- 1), Some (- 1)]
      \<and> map roundPoints (players r') = [0, 0]
      \<and> list_all (\<lambda>p. answered p) (players r')
      \<and> timerFires ''AB12CD'' (timerFires ''AB12CD'' round1) = timerFires ''AB12CD'' round1"
proof -
  let ?q = "roomAB\<lparr>players := [ann, bob], questions := [q1, q2], questionsReady := True, status := Quiz\<rparr>"
  have t: "questionTimers round1 ''AB12CD'' = Some (Pending 30000)" by (simp add: round1_timers)
  have rq: "rooms round1 ''AB12CD'' = Some ?q" by (simp add: round1_rooms)
  from timerFires_auto_submits [OF t rq]
  show ?thesis by (auto simp: autoSubmit_def ann_def bob_def newPlayer_def)
qed

subsection \<open>X4: the award for a correct answer\<close>

text \<open>
  X4. A correct answer of a player who has not answered yet is awarded 10 points plus the
  floor of ten times the reported remaining time over the limit; the award is the round
  points and is added to the score; the answer time is the limit minus the reported time.
\<close>

theorem selectAnswer_award:
  assumes room: "lookupRoom sock s = Some r"
    and quiz: "status r = Quiz"
    and found: "findIndex (\<lambda>p. id_player p = sid sock) (players r) = Some i"
    and fresh: "\<not> answered (players r ! i)"
    and limit: "questionTime r \<noteq> 0"
    and inrange: "0 \<le> currentQuestion r" "currentQuestion r < int (length (questions r))"
    and correct: "c = correctAnswer (questions r ! nat (currentQuestion r))"
  shows "\<exists>s' r'. selectAnswer sock (Some c) timeRemaining s = Returns s' \<and> lookupRoom sock s' = Some r'
           \<and> answered (players r' ! i)
           \<and> selectedAnswer (players r' ! i) = Some c
           \<and> answerTime (players r' ! i) = Some (questionTime r - numOr timeRemaining 0)
           \<and> roundPoints (players r' ! i) = 10 + (numOr timeRemaining 0 * 10) div questionTime r
           \<and> score (players r' ! i) = score (players r ! i) + 10 + (numOr timeRemaining 0 * 10) div questionTime r"
proof -
  have i: "i < length (players r)" using findIndex_Some [OF found] by simp
  have r: "rooms s (roomKey sock s) = Some r" using room by (simp add: lookupRoom_def)
  have m: "numOr (Some (questionTime r)) 30 = questionTime r" using limit by (simp add: numOr_def)
  show ?thesis
    using i r quiz found fresh inrange correct
    by (simp add: selectAnswer_def lookupRoom_def Let_def m totalPoints_def basePoints_def
        timeBonus_div)
qed

text \<open>Ann answers with 10 of 30 seconds remaining: 13 points.\<close>

theorem selectAnswer_award_witness:
  "\<exists>s' r'. selectAnswer sockA (Some 3) (Some 10) round1 = Returns s' \<and> lookupRoom sockA s' = Some r'
      \<and> answerTime (players r' ! 0) = Some 20 \<and> roundPoints (players r' ! 0) = 13
      \<and> score (players r' ! 0) = 13"
proof -
  let ?r = "roomAB\<lparr>players := [ann, bob], questions := [q1, q2], questionsReady := True, status := Quiz\<rparr>"
  have room: "lookupRoom sockA round1 = Some ?r"
    by (simp add: lookupRoom_def sockA_key round1_rooms round1_sockets)
  have quiz: "status ?r = Quiz" by simp
  have found: "findIndex (\<lambda>p. id_player p = sid sockA) (players ?r) = Some 0"
    by (simp add: sid_sockA ann_def newPlayer_def)
  have fresh: "\<not> answered (players ?r ! 0)" by (simp add: ann_def newPlayer_def)
  have limit: "questionTime ?r \<noteq> 0" by (simp add: roomAB_def)
  have lo: "0 \<le> currentQuestion ?r" by (simp add: roomAB_def)
  have hi: "currentQuestion ?r < int (length (questions ?r))" by (simp add: roomAB_def)
  have correct: "3 = correctAnswer (questions ?r ! nat (currentQuestion ?r))"
    by (simp add: roomAB_def q1_def)
  have sc: "score (players ?r ! 0) = 0" by (simp add: ann_def newPlayer_def)
  have qt: "questionTime ?r = 30" by (simp add: roomAB_def)
  from selectAnswer_award [OF room quiz found fresh limit lo hi correct, of "Some 10"]
  show ?thesis unfolding sc qt by (auto simp: numOr_def)
qed

subsection \<open>X5: startQuiz starts the match\<close>

text \<open>
  X5. When the admin calls \<^verbatim>\<open>startQuiz\<close> on a room with ready, non-empty questions (and,
  in the rematch lobby, with every player ready), the room is in status quiz at question 0
  with \<open>rematch\<close> false and every player reset, \<^verbatim>\<open>quizStarted\<close> is broadcast, and the
  room's timer is pending for \<open>questionTime\<close> seconds.
\<close>

theorem startQuiz_starts_match:
  assumes "lookupRoom sock s = Some r" and "adminId r = sid sock"
    and "questions r \<noteq> []" and "questionsReady r"
    and "status r = Finished \<and> rematch r \<longrightarrow> list_all (\<lambda>p. ready p) (players r)"
  shows "\<exists>r'. lookupRoom sock (startQuiz sock s) = Some r'
           \<and> status r' = Quiz \<and> currentQuestion r' = 0 \<and> \<not> rematch r'
           \<and> questions r' = questions r
           \<and> players r' = map resetMatch (players r)
           \<and> questionTimers (startQuiz sock s) (code r) = Some (Pending (numOr (Some (questionTime r)) 30 * 1000))
           \<and> emitted (startQuiz sock s) = emitted s @ [(ToRoom (code r), QuizStarted r')]"
proof -
  have r: "rooms s (roomKey sock s) = Some r" using assms(1) by (simp add: lookupRoom_def)
  define r' where "r' = r\<lparr>players := map resetMatch (players r), rematch := False,
                        status := Quiz, currentQuestion := 0\<rparr>"
  have eq: "startQuiz sock s = startQuestionTimer (code r) r'
              (emit (ToRoom (code r)) (QuizStarted r') (s\<lparr>rooms := (rooms s)(roomKey sock s \<mapsto> r')\<rparr>))"
    using assms(1-5) by (auto simp: startQuiz_def Let_def r'_def)
  have k: "roomKey sock (startQuiz sock s) = roomKey sock s"
    unfolding eq by simp
  have e: "emitted (startQuiz sock s) = emitted s @ [(ToRoom (code r), QuizStarted r')]"
    unfolding eq by (simp add: emit_def)
  have t: "questionTimers (startQuiz sock s) (code r) = Some (Pending (numOr (Some (questionTime r)) 30 * 1000))"
    unfolding eq by (simp add: r'_def)
  have l: "lookupRoom sock (startQuiz sock s) = Some r'"
    unfolding lookupRoom_def k unfolding eq by simp
  from l e t show ?thesis by (simp add: r'_def)
qed

text \<open>Ann starts the quiz of the sample session.\<close>

theorem startQuiz_starts_match_witness:
  "\<exists>r'. lookupRoom sockA (startQuiz sockA ready2) = Some r'
      \<and> status r' = Quiz \<and> currentQuestion r' = 0 \<and> questions r' = [q1, q2]
      \<and> questionTimers (startQuiz sockA ready2) ''AB12CD'' = Some (Pending 30000)"
proof -
  let ?r = "roomAB\<lparr>players := [ann, bob], questions := [q1, q2], questionsReady := True\<rparr>"
  have room: "lookupRoom sockA ready2 = Some ?r"
    by (simp add: lookupRoom_def sockA_key ready2_rooms ready2_sockets)
  have admin: "adminId ?r = sid sockA" by (simp add: roomAB_def sid_sockA)
  have qs: "questions ?r \<noteq> []" by simp
  have rd: "questionsReady ?r" by simp
  have rm: "status ?r = Finished \<and> rematch ?r \<longrightarrow> list_all (\<lambda>p. ready p) (players ?r)"
    by (simp add: roomAB_def)
  have cd: "code ?r = ''AB12CD''" by (simp add: roomAB_def)
  have qt: "questionTime ?r = 30" by (simp add: roomAB_def)
  from startQuiz_starts_match [OF room admin qs rd rm]
  show ?thesis unfolding cd qt by (auto simp: numOr_def)
qed

end
